theory Spec2Isabelle
  imports Complex_Main
begin

section \<open>Values, faults and the browser state\<close>

text \<open>
  The scripts under verification are browser JavaScript. The model below keeps what the
  functions read and write: the two Web Storage areas, the elements the script looks up
  by id, the timers it schedules and the HTTP exchanges it performs. Console output has
  no effect on any of these and is left out.
\<close>

text \<open>
  A JavaScript value as the error branch can meet it: \<open>undefined\<close>, or a value produced by
  \<open>response.json()\<close>. A number is the value of the parsed double (never NaN in JSON); an
  object is the list of its own properties.
\<close>

datatype jsval =
    JUndefined
  | JNull
  | JBool bool
  | JNum rat
  | JStr string
  | JArr "jsval list"
  | JObj "(string \<times> jsval) list"

text \<open>What a \<open>throw\<close> or a rejected promise carries.\<close>

datatype fault =
    SecurityError
  | QuotaExceededError
  | TypeError
  | FetchFailed
  | TokenStatusError nat
  | BodyReadError

text \<open>
  A Web Storage area (\<open>sessionStorage\<close>, \<open>localStorage\<close>). Where the host has disabled
  storage every access raises. Otherwise the area is a map from keys to strings together
  with the quota of the browser: the contents the area has room for. Reading and removing
  never raise there; \<open>setItem\<close> returns at once when the key already holds the value, and
  raises \<open>QuotaExceededError\<close> when the area has no room for the contents the write
  would give (an area that is full, or one with no quota at all).
\<close>

datatype storage = Unavailable | Available "string \<rightharpoonup> string" "(string \<rightharpoonup> string) \<Rightarrow> bool"

fun getItem :: "storage \<Rightarrow> string \<Rightarrow> fault + string option" where
  "getItem Unavailable k = Inl SecurityError"
| "getItem (Available m room) k = Inr (m k)"

fun setItem :: "storage \<Rightarrow> string \<Rightarrow> string \<Rightarrow> fault + storage" where
  "setItem Unavailable k v = Inl SecurityError"
| "setItem (Available m room) k v =
     (if m k = Some v then Inr (Available m room)
      else if room (m(k \<mapsto> v)) then Inr (Available (m(k \<mapsto> v)) room)
      else Inl QuotaExceededError)"

fun removeItem :: "storage \<Rightarrow> string \<Rightarrow> fault + storage" where
  "removeItem Unavailable k = Inl SecurityError"
| "removeItem (Available m room) k = Inr (Available (m(k := None)) room)"

text \<open>
  An element of the host page: its class list, its own text and, when it has a
  \<open>p\<close> descendant, the text of the first one (what \<open>querySelector('p')\<close> finds). Text is
  kept as the value assigned to \<open>textContent\<close>.
\<close>

record element =
  classList :: "string set"
  textContent :: jsval
  paragraphText :: "jsval option"

text \<open>The callbacks the script hands to \<open>showTemporaryMessage\<close>.\<close>

datatype callback = NoCallback | HideWrapper | RestoreForm

record timer =
  delay :: nat
  target :: string
  action :: callback

text \<open>
  The request body of the subscription POST, before \<open>JSON.stringify\<close>. A property the
  script does not put into the object is \<open>None\<close>.
\<close>

record payload =
  p_email :: string
  p_emailType :: string
  p_integrityToken :: "string option"
  p_name :: "string option"
  p_newsletters :: "string list option"

text \<open>The \<open>options\<close> argument: both fields may be absent.\<close>

record options =
  opt_name :: "string option"
  opt_newsletters :: "string list option"

text \<open>
  What the network gives back. A fetch either rejects (no response) or resolves to a
  response with a status; the token response's \<open>text()\<close> and the subscription response's
  \<open>json()\<close> may themselves reject, which is \<open>None\<close>.
\<close>

datatype token_outcome = TokenUnreachable | TokenResponse nat "string option"

datatype post_outcome = PostUnreachable | PostResponse nat "jsval option"

record network =
  token_endpoint :: "string \<Rightarrow> token_outcome"
  subscribe_endpoint :: "string \<Rightarrow> payload \<Rightarrow> post_outcome"

text \<open>One request with the outcome the network gave it.\<close>

datatype exchange =
    TokenGet string "(string \<times> string) list" token_outcome
  | SubscribePost string "(string \<times> string) list" payload post_outcome

record world =
  sessionStorage :: storage
  localStorage :: storage
  document :: "string \<rightharpoonup> element"
  timers :: "timer list"
  exchanges :: "exchange list"

text \<open>The value \<open>subscribeToGhost\<close> resolves to; an absent property is \<open>None\<close>.\<close>

record result =
  success :: bool
  message :: "string option"
  error :: "jsval option"

section \<open>Persistence (part_000, lines 412 to 478)\<close>

definition NEWSLETTER_SESSION_KEY :: string where
  "NEWSLETTER_SESSION_KEY = ''newsletter_subscribed_session''"

definition NEWSLETTER_NEVER_SHOW_KEY :: string where
  "NEWSLETTER_NEVER_SHOW_KEY = ''newsletter_never_show''"

definition MESSAGE_DISPLAY_DURATION :: nat where
  "MESSAGE_DISPLAY_DURATION = 5000"

definition hasSubscribedThisSession :: "world \<Rightarrow> fault + bool" where
  "hasSubscribedThisSession w =
     (case getItem (sessionStorage w) NEWSLETTER_SESSION_KEY of
        Inl e \<Rightarrow> Inl e
      | Inr v \<Rightarrow> Inr (v = Some ''true''))"

definition markSubscribedThisSession :: "world \<Rightarrow> fault + world" where
  "markSubscribedThisSession w =
     (case setItem (sessionStorage w) NEWSLETTER_SESSION_KEY ''true'' of
        Inl e \<Rightarrow> Inl e
      | Inr s \<Rightarrow> Inr (w\<lparr>sessionStorage := s\<rparr>))"

definition hasUserDismissedPermanently :: "world \<Rightarrow> fault + bool" where
  "hasUserDismissedPermanently w =
     (case getItem (localStorage w) NEWSLETTER_NEVER_SHOW_KEY of
        Inl e \<Rightarrow> Inl e
      | Inr v \<Rightarrow> Inr (v = Some ''true''))"

text \<open>\<open>element.classList.add(c)\<close> and \<open>remove(c)\<close> on an element that may be null.\<close>

definition addClass :: "string \<Rightarrow> string \<Rightarrow> world \<Rightarrow> world" where
  "addClass ident c w =
     (case document w ident of
        None \<Rightarrow> w
      | Some el \<Rightarrow>
          w\<lparr>document := (document w)(ident \<mapsto> el\<lparr>classList := insert c (classList el)\<rparr>)\<rparr>)"

definition removeClass :: "string \<Rightarrow> string \<Rightarrow> world \<Rightarrow> world" where
  "removeClass ident c w =
     (case document w ident of
        None \<Rightarrow> w
      | Some el \<Rightarrow>
          w\<lparr>document := (document w)(ident \<mapsto> el\<lparr>classList := classList el - {c}\<rparr>)\<rparr>)"

definition hideNewsletterWrapper :: "world \<Rightarrow> world" where
  "hideNewsletterWrapper w = addClass ''subscription-form-wrapper'' ''hidden'' w"

definition dismissNewsletter :: "world \<Rightarrow> fault + world" where
  "dismissNewsletter w =
     (case setItem (localStorage w) NEWSLETTER_NEVER_SHOW_KEY ''true'' of
        Inl e \<Rightarrow> Inl e
      | Inr s \<Rightarrow>
          Inr (addClass ''subscription-form-wrapper'' ''hidden'' (w\<lparr>localStorage := s\<rparr>)))"

definition clearDismissal :: "world \<Rightarrow> fault + world" where
  "clearDismissal w =
     (case removeItem (localStorage w) NEWSLETTER_NEVER_SHOW_KEY of
        Inl e \<Rightarrow> Inl e
      | Inr s \<Rightarrow> Inr (w\<lparr>localStorage := s\<rparr>))"

definition clearSessionSubscription :: "world \<Rightarrow> fault + world" where
  "clearSessionSubscription w =
     (case removeItem (sessionStorage w) NEWSLETTER_SESSION_KEY of
        Inl e \<Rightarrow> Inl e
      | Inr s \<Rightarrow> Inr (w\<lparr>sessionStorage := s\<rparr>))"

text \<open>
  \<open>!hasSubscribedThisSession() && !hasUserDismissedPermanently()\<close>: the right operand is
  evaluated only when the left one is true.
\<close>

definition shouldShowForm :: "world \<Rightarrow> fault + bool" where
  "shouldShowForm w =
     (case hasSubscribedThisSession w of
        Inl e \<Rightarrow> Inl e
      | Inr subscribed \<Rightarrow>
          if subscribed then Inr False
          else (case hasUserDismissedPermanently w of
                  Inl e \<Rightarrow> Inl e
                | Inr dismissed \<Rightarrow> Inr (\<not> dismissed)))"

section \<open>Temporary messages (part_000, lines 495 to 508)\<close>

text \<open>
  \<open>showTemporaryMessage(messageElement, callback)\<close> shows the element when it is not null
  and schedules the hiding and the callback with \<open>setTimeout\<close>. The element is named by
  its id; a null element is an id the page does not have.
\<close>

definition showTemporaryMessage :: "string \<Rightarrow> callback \<Rightarrow> world \<Rightarrow> world" where
  "showTemporaryMessage ident cb w =
     (let w1 = removeClass ident ''hidden'' w
      in w1\<lparr>timers := timers w1 @
            [\<lparr>delay = MESSAGE_DISPLAY_DURATION, target = ident, action = cb\<rparr>]\<rparr>)"

text \<open>What the scheduled function does when the timer fires.\<close>

fun runCallback :: "callback \<Rightarrow> world \<Rightarrow> world" where
  "runCallback NoCallback w = w"
| "runCallback HideWrapper w = hideNewsletterWrapper w"
| "runCallback RestoreForm w =
     removeClass ''dismiss-newsletter'' ''hidden'' (removeClass ''subscription-form'' ''hidden'' w)"

definition fireTimer :: "timer \<Rightarrow> world \<Rightarrow> world" where
  "fireTimer t w = runCallback (action t) (addClass (target t) ''hidden'' w)"

section \<open>Reading the error body (part_000, lines 636 to 639)\<close>

text \<open>\<open>v\<close> is \<open>null\<close> or \<open>undefined\<close>: property access raises, optional chaining stops.\<close>

fun nullish :: "jsval \<Rightarrow> bool" where
  "nullish JUndefined = True"
| "nullish JNull = True"
| "nullish _ = False"

text \<open>JavaScript's ToBoolean, which \<open>||\<close> applies to its left operand.\<close>

fun truthy :: "jsval \<Rightarrow> bool" where
  "truthy JUndefined = False"
| "truthy JNull = False"
| "truthy (JBool b) = b"
| "truthy (JNum n) = (n \<noteq> 0)"
| "truthy (JStr s) = (s \<noteq> [])"
| "truthy (JArr xs) = True"
| "truthy (JObj kvs) = True"

text \<open>\<open>typeof v === 'string'\<close>.\<close>

fun isString :: "jsval \<Rightarrow> bool" where
  "isString (JStr s) = True"
| "isString _ = False"

text \<open>
  \<open>v.name\<close> for a property name that no built-in prototype defines (the script reads
  \<open>errors\<close> and \<open>message\<close>): an object gives its own property or \<open>undefined\<close>, every
  other non-nullish value gives \<open>undefined\<close>, and \<open>null\<close> and \<open>undefined\<close> raise a TypeError.
\<close>

fun member :: "string \<Rightarrow> jsval \<Rightarrow> fault + jsval" where
  "member name JUndefined = Inl TypeError"
| "member name JNull = Inl TypeError"
| "member name (JObj kvs) = Inr (case map_of kvs name of None \<Rightarrow> JUndefined | Some v \<Rightarrow> v)"
| "member name _ = Inr JUndefined"

text \<open>
  \<open>v[0]\<close>: the first element of an array, the first character of a string, the property
  \<open>0\<close> of an object; \<open>undefined\<close> where there is none.
\<close>

fun item0 :: "jsval \<Rightarrow> fault + jsval" where
  "item0 JUndefined = Inl TypeError"
| "item0 JNull = Inl TypeError"
| "item0 (JArr xs) = Inr (case xs of [] \<Rightarrow> JUndefined | x # _ \<Rightarrow> x)"
| "item0 (JStr s) = Inr (case s of [] \<Rightarrow> JUndefined | c # _ \<Rightarrow> JStr [c])"
| "item0 (JObj kvs) = Inr (case map_of kvs ''0'' of None \<Rightarrow> JUndefined | Some v \<Rightarrow> v)"
| "item0 _ = Inr JUndefined"

text \<open>Optional chaining \<open>v?.\<close>: \<open>undefined\<close> when \<open>v\<close> is nullish, the access otherwise.\<close>

definition optional :: "(jsval \<Rightarrow> fault + jsval) \<Rightarrow> jsval \<Rightarrow> fault + jsval" where
  "optional access v = (if nullish v then Inr JUndefined else access v)"

definition SUBSCRIPTION_FAILED :: string where
  "SUBSCRIPTION_FAILED = ''Subscription failed. Please try again.''"

definition NETWORK_ERROR :: string where
  "NETWORK_ERROR = ''Network error. Please check your connection and try again.''"

definition SUCCESS_MESSAGE :: string where
  "SUCCESS_MESSAGE = ''Success! Please check your email to confirm your subscription.''"

text \<open>\<open>await response.json().catch(() => ({}))\<close>: a rejection becomes the empty object.\<close>

definition errorDataOf :: "jsval option \<Rightarrow> jsval" where
  "errorDataOf body = (case body of None \<Rightarrow> JObj [] | Some v \<Rightarrow> v)"

text \<open>
  \<open>errorData.errors?.[0]?.message || 'Subscription failed. Please try again.'\<close>: the
  first access is a plain one, the other two are optional.
\<close>

definition errorMessageOf :: "jsval \<Rightarrow> fault + jsval" where
  "errorMessageOf errorData =
     (case member ''errors'' errorData of
        Inl e \<Rightarrow> Inl e
      | Inr errors \<Rightarrow>
          (case optional item0 errors of
             Inl e \<Rightarrow> Inl e
           | Inr first \<Rightarrow>
               (case optional (member ''message'') first of
                  Inl e \<Rightarrow> Inl e
                | Inr m \<Rightarrow> Inr (if truthy m then m else JStr SUBSCRIPTION_FAILED))))"

text \<open>
  The same reading written by cases on the parsed body, for a body that is not nullish:
  the \<open>errors\<close> property of the body, the entry \<open>0\<close> of that, and its \<open>message\<close>
  property, each \<open>undefined\<close> where there is none.
\<close>

fun errorsField :: "jsval \<Rightarrow> jsval" where
  "errorsField (JObj kvs) = (case map_of kvs ''errors'' of None \<Rightarrow> JUndefined | Some v \<Rightarrow> v)"
| "errorsField _ = JUndefined"

fun firstEntry :: "jsval \<Rightarrow> jsval" where
  "firstEntry (JArr (x # xs)) = x"
| "firstEntry (JStr (c # cs)) = JStr [c]"
| "firstEntry (JObj kvs) = (case map_of kvs ''0'' of None \<Rightarrow> JUndefined | Some v \<Rightarrow> v)"
| "firstEntry _ = JUndefined"

fun messageField :: "jsval \<Rightarrow> jsval" where
  "messageField (JObj kvs) = (case map_of kvs ''message'' of None \<Rightarrow> JUndefined | Some v \<Rightarrow> v)"
| "messageField _ = JUndefined"

definition rejectedMessage :: "jsval \<Rightarrow> jsval" where
  "rejectedMessage errorData =
     (let m = messageField (firstEntry (errorsField errorData))
      in if truthy m then m else JStr SUBSCRIPTION_FAILED)"

section \<open>The token request (part_000, lines 517 to 538)\<close>

text \<open>\<open>response.ok\<close>: the status is in the range 200 to 299.\<close>

definition ok :: "nat \<Rightarrow> bool" where
  "ok status = (200 \<le> status \<and> status \<le> 299)"

definition tokenUrl :: "string \<Rightarrow> string" where
  "tokenUrl ghostSiteBaseUrl = ghostSiteBaseUrl @ ''/members/api/integrity-token/''"

definition subscribeUrl :: "string \<Rightarrow> string" where
  "subscribeUrl ghostSiteBaseUrl = ghostSiteBaseUrl @ ''/members/api/send-magic-link''"

definition tokenHeaders :: "(string \<times> string) list" where
  "tokenHeaders = [(''app-pragma'', ''no-cache''), (''x-ghost-version'', ''6.0'')]"

definition postHeaders :: "(string \<times> string) list" where
  "postHeaders = [(''Content-Type'', ''application/json; charset=utf-8'')]"

definition getIntegrityToken :: "network \<Rightarrow> string \<Rightarrow> world \<Rightarrow> (fault + string) \<times> world" where
  "getIntegrityToken net ghostSiteBaseUrl w =
     (let endpoint = tokenUrl ghostSiteBaseUrl;
          outcome = token_endpoint net endpoint;
          w1 = w\<lparr>exchanges := exchanges w @ [TokenGet endpoint tokenHeaders outcome]\<rparr>
      in case outcome of
           TokenUnreachable \<Rightarrow> (Inl FetchFailed, w1)
         | TokenResponse status body \<Rightarrow>
             if \<not> ok status then (Inl (TokenStatusError status), w1)
             else (case body of
                     None \<Rightarrow> (Inl BodyReadError, w1)
                   | Some token \<Rightarrow> (Inr token, w1)))"

section \<open>The subscription (part_000, lines 550 to 700)\<close>

text \<open>\<open>errorElement.querySelector('p')\<close> followed by the assignment to its \<open>textContent\<close>.\<close>

definition setParagraph :: "string \<Rightarrow> jsval \<Rightarrow> world \<Rightarrow> world" where
  "setParagraph ident v w =
     (case document w ident of
        None \<Rightarrow> w
      | Some el \<Rightarrow>
          (case paragraphText el of
             None \<Rightarrow> w
           | Some old \<Rightarrow> w\<lparr>document := (document w)(ident \<mapsto> el\<lparr>paragraphText := Some v\<rparr>)\<rparr>))"

text \<open>Lines 560 to 566: the inline message for an address that fails the check.\<close>

definition showInvalidEmail :: "world \<Rightarrow> world" where
  "showInvalidEmail w =
     (case document w ''subscription-error'' of
        None \<Rightarrow> w
      | Some el \<Rightarrow>
          showTemporaryMessage ''subscription-error'' NoCallback
            (setParagraph ''subscription-error'' (JStr ''Please enter a valid email address'') w))"

text \<open>
  Lines 641 to 664, and again lines 673 to 696 with the network message: the error text,
  the form and the dismiss link hidden, and the timer that restores them.
\<close>

definition showError :: "jsval \<Rightarrow> world \<Rightarrow> world" where
  "showError errorMessage w =
     (case document w ''subscription-error'' of
        None \<Rightarrow> w
      | Some el \<Rightarrow>
          showTemporaryMessage ''subscription-error'' RestoreForm
            (addClass ''dismiss-newsletter'' ''hidden''
              (addClass ''subscription-form'' ''hidden''
                (setParagraph ''subscription-error'' errorMessage w))))"

text \<open>Lines 613 to 627: what the page shows once the subscription is accepted.\<close>

definition showSuccess :: "world \<Rightarrow> world" where
  "showSuccess w =
     showTemporaryMessage ''subscription-mail-sent'' HideWrapper
       (addClass ''subscription-error'' ''hidden''
         (addClass ''dismiss-newsletter'' ''hidden''
           (addClass ''subscription-form'' ''hidden'' w)))"

text \<open>
  Lines 579 to 592: \<open>name\<close> is added when it is a non-empty string, \<open>newsletters\<close> when
  the array has an element.
\<close>

definition buildPayload :: "string \<Rightarrow> string \<Rightarrow> options \<Rightarrow> payload" where
  "buildPayload email integrityToken opts =
     \<lparr>p_email = email,
      p_emailType = ''subscribe'',
      p_integrityToken = Some integrityToken,
      p_name = (case opt_name opts of
                  None \<Rightarrow> None
                | Some n \<Rightarrow> if n \<noteq> [] then Some n else None),
      p_newsletters = (case opt_newsletters opts of
                         None \<Rightarrow> None
                       | Some ids \<Rightarrow> if length ids > 0 then Some ids else None)\<rparr>"

text \<open>\<open>!email || !email.includes('@')\<close> for a string \<open>email\<close>.\<close>

definition invalidEmail :: "string \<Rightarrow> bool" where
  "invalidEmail email = (email = [] \<or> CHR ''@'' \<notin> set email)"

text \<open>
  The body of the \<open>try\<close> block (lines 571 to 666): it ends with the returned value, or
  with the fault that reaches the \<open>catch\<close>; the state is the one reached at that point.
\<close>

definition tryBlock :: "network \<Rightarrow> string \<Rightarrow> string \<Rightarrow> options \<Rightarrow> world \<Rightarrow> (fault + result) \<times> world" where
  "tryBlock net email ghostSiteBaseUrl opts w =
     (case getIntegrityToken net ghostSiteBaseUrl w of
        (Inl e, w1) \<Rightarrow> (Inl e, w1)
      | (Inr integrityToken, w1) \<Rightarrow>
          (let endpoint = subscribeUrl ghostSiteBaseUrl;
               body = buildPayload email integrityToken opts;
               outcome = subscribe_endpoint net endpoint body;
               w2 = w1\<lparr>exchanges := exchanges w1 @ [SubscribePost endpoint postHeaders body outcome]\<rparr>
           in case outcome of
                PostUnreachable \<Rightarrow> (Inl FetchFailed, w2)
              | PostResponse status json \<Rightarrow>
                  if status = 201 then
                    (case markSubscribedThisSession w2 of
                       Inl e \<Rightarrow> (Inl e, w2)
                     | Inr w3 \<Rightarrow>
                         (Inr \<lparr>success = True, message = Some SUCCESS_MESSAGE, error = None\<rparr>,
                          showSuccess w3))
                  else
                    (case errorMessageOf (errorDataOf json) of
                       Inl e \<Rightarrow> (Inl e, w2)
                     | Inr errorMessage \<Rightarrow>
                         (Inr \<lparr>success = False, message = None, error = Some errorMessage\<rparr>,
                          showError errorMessage w2))))"

definition subscribeToGhost :: "network \<Rightarrow> string \<Rightarrow> string \<Rightarrow> options \<Rightarrow> world \<Rightarrow> result \<times> world" where
  "subscribeToGhost net email ghostSiteBaseUrl opts w =
     (if invalidEmail email then
        (\<lparr>success = False, message = None, error = Some (JStr ''Invalid email address'')\<rparr>,
         showInvalidEmail w)
      else
        (case tryBlock net email ghostSiteBaseUrl opts w of
           (Inr r, w') \<Rightarrow> (r, w')
         | (Inl e, w') \<Rightarrow>
             (\<lparr>success = False, message = None, error = Some (JStr NETWORK_ERROR)\<rparr>,
              showError (JStr NETWORK_ERROR) w')))"

text \<open>
  What the caller of the async function gets: a promise that rejects with a fault that
  left the function (\<open>Inl\<close>) or resolves to the returned value (\<open>Inr\<close>). The function
  once more with that outcome explicit: the check and its \<open>return\<close>, then
  \<open>try { ... } catch (error) { ... }\<close>, where the handler of lines 668 to 699 takes
  whatever fault ended the block.
\<close>

definition tryCatch ::
  "(fault + 'a) \<times> world \<Rightarrow> (fault \<Rightarrow> world \<Rightarrow> (fault + 'a) \<times> world) \<Rightarrow> (fault + 'a) \<times> world" where
  "tryCatch block handler =
     (case block of
        (Inr v, w') \<Rightarrow> (Inr v, w')
      | (Inl e, w') \<Rightarrow> handler e w')"

definition catchBlock :: "fault \<Rightarrow> world \<Rightarrow> (fault + result) \<times> world" where
  "catchBlock e w =
     (Inr \<lparr>success = False, message = None, error = Some (JStr NETWORK_ERROR)\<rparr>,
      showError (JStr NETWORK_ERROR) w)"

definition subscribeToGhost_promise ::
  "network \<Rightarrow> string \<Rightarrow> string \<Rightarrow> options \<Rightarrow> world \<Rightarrow> (fault + result) \<times> world" where
  "subscribeToGhost_promise net email ghostSiteBaseUrl opts w =
     (if invalidEmail email then
        (Inr \<lparr>success = False, message = None, error = Some (JStr ''Invalid email address'')\<rparr>,
         showInvalidEmail w)
      else tryCatch (tryBlock net email ghostSiteBaseUrl opts w) catchBlock)"

section \<open>Page load (part_000, lines 706 to 713)\<close>

definition initNewsletterForm :: "world \<Rightarrow> fault + world" where
  "initNewsletterForm w =
     (case shouldShowForm w of
        Inl e \<Rightarrow> Inl e
      | Inr shown \<Rightarrow> Inr (if \<not> shown then hideNewsletterWrapper w else w))"

section \<open>The script with one permanent flag (part_001)\<close>

definition NEWSLETTER_STORAGE_KEY :: string where
  "NEWSLETTER_STORAGE_KEY = ''newsletter_subscribed''"

definition hasUserSubscribed :: "world \<Rightarrow> fault + bool" where
  "hasUserSubscribed w =
     (case getItem (localStorage w) NEWSLETTER_STORAGE_KEY of
        Inl e \<Rightarrow> Inl e
      | Inr v \<Rightarrow> Inr (v = Some ''true''))"

definition markUserAsSubscribed :: "world \<Rightarrow> fault + world" where
  "markUserAsSubscribed w =
     (case setItem (localStorage w) NEWSLETTER_STORAGE_KEY ''true'' of
        Inl e \<Rightarrow> Inl e
      | Inr s \<Rightarrow> Inr (w\<lparr>localStorage := s\<rparr>))"

definition clearSubscriptionStatus :: "world \<Rightarrow> fault + world" where
  "clearSubscriptionStatus w =
     (case removeItem (localStorage w) NEWSLETTER_STORAGE_KEY of
        Inl e \<Rightarrow> Inl e
      | Inr s \<Rightarrow> Inr (w\<lparr>localStorage := s\<rparr>))"

text \<open>
  \<open>errorElement.textContent = v; errorElement.classList.remove('hidden')\<close> under
  \<open>if (errorElement)\<close>. Assigning \<open>textContent\<close> replaces the element's children, so no
  \<open>p\<close> descendant is left.
\<close>

definition showErrorText :: "jsval \<Rightarrow> world \<Rightarrow> world" where
  "showErrorText v w =
     (case document w ''subscription-error'' of
        None \<Rightarrow> w
      | Some el \<Rightarrow>
          w\<lparr>document := (document w)(''subscription-error'' \<mapsto>
                el\<lparr>classList := classList el - {''hidden''}, textContent := v,
                   paragraphText := None\<rparr>)\<rparr>)"

text \<open>part_001, lines 135 to 143.\<close>

definition showSuccess_part001 :: "world \<Rightarrow> world" where
  "showSuccess_part001 w =
     addClass ''subscription-error'' ''hidden''
       (if document w ''subscription-mail-sent'' \<noteq> None \<and> document w ''subscription-form'' \<noteq> None
        then removeClass ''subscription-mail-sent'' ''hidden''
               (addClass ''subscription-form'' ''hidden'' w)
        else w)"

text \<open>The \<open>try\<close> block of part_001, lines 92 to 162.\<close>

definition tryBlock_part001 :: "network \<Rightarrow> string \<Rightarrow> string \<Rightarrow> options \<Rightarrow> world \<Rightarrow> (fault + result) \<times> world" where
  "tryBlock_part001 net email ghostSiteBaseUrl opts w =
     (case getIntegrityToken net ghostSiteBaseUrl w of
        (Inl e, w1) \<Rightarrow> (Inl e, w1)
      | (Inr integrityToken, w1) \<Rightarrow>
          (let endpoint = subscribeUrl ghostSiteBaseUrl;
               body = buildPayload email integrityToken opts;
               outcome = subscribe_endpoint net endpoint body;
               w2 = w1\<lparr>exchanges := exchanges w1 @ [SubscribePost endpoint postHeaders body outcome]\<rparr>
           in case outcome of
                PostUnreachable \<Rightarrow> (Inl FetchFailed, w2)
              | PostResponse status json \<Rightarrow>
                  if status = 201 then
                    (case markUserAsSubscribed w2 of
                       Inl e \<Rightarrow> (Inl e, w2)
                     | Inr w3 \<Rightarrow>
                         (Inr \<lparr>success = True, message = Some SUCCESS_MESSAGE, error = None\<rparr>,
                          showSuccess_part001 w3))
                  else
                    (case errorMessageOf (errorDataOf json) of
                       Inl e \<Rightarrow> (Inl e, w2)
                     | Inr errorMessage \<Rightarrow>
                         (Inr \<lparr>success = False, message = None, error = Some errorMessage\<rparr>,
                          showErrorText errorMessage w2))))"

definition subscribeToGhost_part001 :: "network \<Rightarrow> string \<Rightarrow> string \<Rightarrow> options \<Rightarrow> world \<Rightarrow> result \<times> world" where
  "subscribeToGhost_part001 net email ghostSiteBaseUrl opts w =
     (if invalidEmail email then
        (\<lparr>success = False, message = None, error = Some (JStr ''Invalid email address'')\<rparr>,
         showErrorText (JStr ''Please enter a valid email address'') w)
      else
        (case tryBlock_part001 net email ghostSiteBaseUrl opts w of
           (Inr r, w') \<Rightarrow> (r, w')
         | (Inl e, w') \<Rightarrow>
             (\<lparr>success = False, message = None, error = Some (JStr NETWORK_ERROR)\<rparr>,
              showErrorText (JStr NETWORK_ERROR) w')))"

section \<open>The script without a token (src/ghost-subscribe.js)\<close>

text \<open>
  This \<open>subscribeToGhost\<close> posts the address without validation and without a token,
  ignores the response, logs a failed fetch, and swaps the form for the confirmation in
  its \<open>finally\<close> block. It has no \<open>return\<close> statement: its promise resolves to
  \<open>undefined\<close>. The outcome of the promise is explicit: \<open>Inl\<close> would be a fault that
  left the function, \<open>Inr\<close> is the value the promise resolves to.
\<close>

definition subscribeToGhost_legacy :: "network \<Rightarrow> string \<Rightarrow> string \<Rightarrow> world \<Rightarrow> (fault + jsval) \<times> world" where
  "subscribeToGhost_legacy net email ghostSiteBaseUrl w =
     (let endpoint = ghostSiteBaseUrl @ ''/members/api/send-magic-link/'';
          body = \<lparr>p_email = email, p_emailType = ''subscribe'', p_integrityToken = None,
                  p_name = None, p_newsletters = None\<rparr>;
          outcome = subscribe_endpoint net endpoint body;
          w1 = w\<lparr>exchanges := exchanges w @ [SubscribePost endpoint postHeaders body outcome]\<rparr>
      in (Inr JUndefined,
          if document w1 ''subscription-mail-sent'' \<noteq> None \<and> document w1 ''subscription-form'' \<noteq> None
          then removeClass ''subscription-mail-sent'' ''invisible''
                 (addClass ''subscription-form'' ''hidden'' w1)
          else w1))"

section \<open>Sequences of calls\<close>

text \<open>
  The calls a page can make on the script of part_000, run one after the other; an
  uncaught fault ends the sequence, as it ends the calling script.
\<close>

datatype operation =
    MarkSubscribed
  | ClearSession
  | Dismiss
  | ClearDismissal
  | PageLoad
  | Subscribe network string string options

fun perform :: "operation \<Rightarrow> world \<Rightarrow> fault + world" where
  "perform MarkSubscribed w = markSubscribedThisSession w"
| "perform ClearSession w = clearSessionSubscription w"
| "perform Dismiss w = dismissNewsletter w"
| "perform ClearDismissal w = clearDismissal w"
| "perform PageLoad w = initNewsletterForm w"
| "perform (Subscribe net email ghostSiteBaseUrl opts) w =
     Inr (snd (subscribeToGhost net email ghostSiteBaseUrl opts w))"

fun performAll :: "operation list \<Rightarrow> world \<Rightarrow> fault + world" where
  "performAll [] w = Inr w"
| "performAll (x # xs) w =
     (case perform x w of Inl e \<Rightarrow> Inl e | Inr w' \<Rightarrow> performAll xs w')"

text \<open>
  The state a call leaves behind, whether it returns or raises: a call that raises has
  changed nothing.
\<close>

definition stateAfter :: "(world \<Rightarrow> fault + world) \<Rightarrow> world \<Rightarrow> world" where
  "stateAfter call w = (case call w of Inl e \<Rightarrow> w | Inr w' \<Rightarrow> w')"

text \<open>The exchanges an invocation added to the log of a world.\<close>

definition issued :: "world \<Rightarrow> world \<Rightarrow> exchange list" where
  "issued w w' = drop (length (exchanges w)) (exchanges w')"

section \<open>Example pages and servers\<close>

definition plainElement :: element where
  "plainElement = \<lparr>classList = {}, textContent = JStr [], paragraphText = None\<rparr>"

definition errorBox :: element where
  "errorBox = \<lparr>classList = {''hidden''}, textContent = JStr [], paragraphText = Some (JStr [])\<rparr>"

text \<open>A quota that has room for everything, and one that has room for nothing.\<close>

definition unlimited :: "(string \<rightharpoonup> string) \<Rightarrow> bool" where
  "unlimited contents = True"

definition noRoom :: "(string \<rightharpoonup> string) \<Rightarrow> bool" where
  "noRoom contents = False"

definition examplePage :: world where
  "examplePage =
     \<lparr>sessionStorage = Available Map.empty unlimited,
      localStorage = Available Map.empty unlimited,
      document = [''subscription-form-wrapper'' \<mapsto> plainElement,
                  ''subscription-form'' \<mapsto> plainElement,
                  ''subscription-mail-sent'' \<mapsto> errorBox,
                  ''subscription-error'' \<mapsto> errorBox,
                  ''dismiss-newsletter'' \<mapsto> plainElement],
      timers = [],
      exchanges = []\<rparr>"

definition blockedPage :: world where
  "blockedPage = examplePage\<lparr>sessionStorage := Unavailable, localStorage := Unavailable\<rparr>"

text \<open>The example page in a browser that gives the session storage no quota.\<close>

definition crowdedPage :: world where
  "crowdedPage = examplePage\<lparr>sessionStorage := Available Map.empty noRoom\<rparr>"

text \<open>The example page after a subscription, after a dismissal, and on a later visit.\<close>

definition subscribedPage :: world where
  "subscribedPage =
     examplePage\<lparr>sessionStorage := Available [NEWSLETTER_SESSION_KEY \<mapsto> ''true''] unlimited\<rparr>"

definition hiddenWrapper :: "string \<rightharpoonup> element" where
  "hiddenWrapper =
     (document examplePage)(''subscription-form-wrapper'' \<mapsto> plainElement\<lparr>classList := {''hidden''}\<rparr>)"

definition dismissedPage :: world where
  "dismissedPage =
     examplePage\<lparr>localStorage := Available [NEWSLETTER_NEVER_SHOW_KEY \<mapsto> ''true''] unlimited,
                 document := hiddenWrapper\<rparr>"

definition laterPage :: world where
  "laterPage = subscribedPage\<lparr>document := hiddenWrapper\<rparr>"

definition clearedPage :: world where
  "clearedPage = examplePage\<lparr>document := hiddenWrapper\<rparr>"

definition noOptions :: options where
  "noOptions = \<lparr>opt_name = None, opt_newsletters = None\<rparr>"

text \<open>A server that hands out the token and answers the POST with the given outcome.\<close>

definition ghost :: "post_outcome \<Rightarrow> network" where
  "ghost answer =
     \<lparr>token_endpoint = (\<lambda>url. TokenResponse 200 (Some ''tok_abc123'')),
      subscribe_endpoint = (\<lambda>url body. answer)\<rparr>"

definition unreachableGhost :: network where
  "unreachableGhost =
     \<lparr>token_endpoint = (\<lambda>url. TokenUnreachable),
      subscribe_endpoint = (\<lambda>url body. PostResponse 201 None)\<rparr>"

definition memberExists :: jsval where
  "memberExists = JObj [(''errors'', JArr [JObj [(''message'', JStr ''Member already exists'')]])]"

definition blog :: string where
  "blog = ''https://blog.example''"

text \<open>The runs that the examples below evaluate.\<close>

definition acceptedRun :: "result \<times> world" where
  "acceptedRun = subscribeToGhost (ghost (PostResponse 201 None)) ''user@example.com'' blog noOptions examplePage"

definition blockedRun :: "result \<times> world" where
  "blockedRun = subscribeToGhost (ghost (PostResponse 201 None)) ''user@example.com'' blog noOptions blockedPage"

definition crowdedRun :: "result \<times> world" where
  "crowdedRun = subscribeToGhost (ghost (PostResponse 201 None)) ''user@example.com'' blog noOptions crowdedPage"

definition rejectedRun :: "jsval option \<Rightarrow> result \<times> world" where
  "rejectedRun json = subscribeToGhost (ghost (PostResponse 400 json)) ''user@example.com'' blog noOptions examplePage"

definition unreachableRun :: "result \<times> world" where
  "unreachableRun = subscribeToGhost unreachableGhost ''user@example.com'' blog noOptions examplePage"

definition malformedRun :: "result \<times> world" where
  "malformedRun = subscribeToGhost unreachableGhost ''userexample.com'' blog noOptions examplePage"

definition rejectedRun_part001 :: "jsval option \<Rightarrow> result \<times> world" where
  "rejectedRun_part001 json = subscribeToGhost_part001 (ghost (PostResponse 400 json)) ''user@example.com'' blog noOptions examplePage"

text \<open>Error bodies: an empty message, and a message that is a number.\<close>

definition emptyMessage :: jsval where
  "emptyMessage = JObj [(''errors'', JArr [JObj [(''message'', JStr [])]])]"

definition numericMessage :: jsval where
  "numericMessage = JObj [(''errors'', JArr [JObj [(''message'', JNum 42)]])]"

section \<open>Reading back what was written\<close>

lemma setItem_getItem: "setItem st k v = Inr s \<Longrightarrow> getItem s k = Inr (Some v)"
  by (cases st) (auto split: if_splits)

lemma setItem_other: "setItem st k v = Inr s \<Longrightarrow> k' \<noteq> k \<Longrightarrow> getItem s k' = getItem st k'"
  by (cases st) (auto split: if_splits)

lemma setItem_again: "getItem st k = Inr (Some v) \<Longrightarrow> setItem st k v = Inr st"
  by (cases st) auto

lemma removeItem_getItem: "removeItem st k = Inr s \<Longrightarrow> getItem s k = Inr None"
  by (cases st) auto

lemma removeItem_other: "removeItem st k = Inr s \<Longrightarrow> k' \<noteq> k \<Longrightarrow> getItem s k' = getItem st k'"
  by (cases st) auto

lemma removeItem_returns: "getItem st k = Inr x \<Longrightarrow> \<exists>s. removeItem st k = Inr s"
  by (cases st) auto

section \<open>What the page updates leave alone\<close>

lemma addClass_frame [simp]:
  "sessionStorage (addClass i c w) = sessionStorage w"
  "localStorage (addClass i c w) = localStorage w"
  "exchanges (addClass i c w) = exchanges w"
  "timers (addClass i c w) = timers w"
  by (simp_all add: addClass_def split: option.splits)

lemma removeClass_frame [simp]:
  "sessionStorage (removeClass i c w) = sessionStorage w"
  "localStorage (removeClass i c w) = localStorage w"
  "exchanges (removeClass i c w) = exchanges w"
  "timers (removeClass i c w) = timers w"
  by (simp_all add: removeClass_def split: option.splits)

lemma setParagraph_frame [simp]:
  "sessionStorage (setParagraph i v w) = sessionStorage w"
  "localStorage (setParagraph i v w) = localStorage w"
  "exchanges (setParagraph i v w) = exchanges w"
  "timers (setParagraph i v w) = timers w"
  by (simp_all add: setParagraph_def split: option.splits)

lemma showTemporaryMessage_frame [simp]:
  "sessionStorage (showTemporaryMessage i cb w) = sessionStorage w"
  "localStorage (showTemporaryMessage i cb w) = localStorage w"
  "exchanges (showTemporaryMessage i cb w) = exchanges w"
  by (simp_all add: showTemporaryMessage_def Let_def)

lemma showError_frame [simp]:
  "sessionStorage (showError v w) = sessionStorage w"
  "localStorage (showError v w) = localStorage w"
  "exchanges (showError v w) = exchanges w"
  by (simp_all add: showError_def split: option.splits)

lemma showInvalidEmail_frame [simp]:
  "sessionStorage (showInvalidEmail w) = sessionStorage w"
  "localStorage (showInvalidEmail w) = localStorage w"
  "exchanges (showInvalidEmail w) = exchanges w"
  by (simp_all add: showInvalidEmail_def split: option.splits)

lemma showSuccess_frame [simp]:
  "sessionStorage (showSuccess w) = sessionStorage w"
  "localStorage (showSuccess w) = localStorage w"
  "exchanges (showSuccess w) = exchanges w"
  by (simp_all add: showSuccess_def)

lemma showErrorText_frame [simp]:
  "sessionStorage (showErrorText v w) = sessionStorage w"
  "localStorage (showErrorText v w) = localStorage w"
  "exchanges (showErrorText v w) = exchanges w"
  by (simp_all add: showErrorText_def split: option.splits)

lemma showSuccess_part001_frame [simp]:
  "sessionStorage (showSuccess_part001 w) = sessionStorage w"
  "localStorage (showSuccess_part001 w) = localStorage w"
  "exchanges (showSuccess_part001 w) = exchanges w"
  by (simp_all add: showSuccess_part001_def)

lemma hideNewsletterWrapper_frame [simp]:
  "sessionStorage (hideNewsletterWrapper w) = sessionStorage w"
  "localStorage (hideNewsletterWrapper w) = localStorage w"
  "exchanges (hideNewsletterWrapper w) = exchanges w"
  by (simp_all add: hideNewsletterWrapper_def)

text \<open>What the token request leaves behind.\<close>

lemma getIntegrityToken_frame:
  assumes "getIntegrityToken net base w = (x, w1)"
  shows "sessionStorage w1 = sessionStorage w" "localStorage w1 = localStorage w"
    "document w1 = document w" "timers w1 = timers w"
    "exchanges w1 = exchanges w @ [TokenGet (tokenUrl base) tokenHeaders (token_endpoint net (tokenUrl base))]"
  using assms
  by (auto simp: getIntegrityToken_def Let_def split: token_outcome.splits if_splits option.splits)

lemma getIntegrityToken_result:
  assumes "getIntegrityToken net base w = (x, w1)"
  shows "x = (case token_endpoint net (tokenUrl base) of
                TokenUnreachable \<Rightarrow> Inl FetchFailed
              | TokenResponse status body \<Rightarrow>
                  if \<not> ok status then Inl (TokenStatusError status)
                  else (case body of None \<Rightarrow> Inl BodyReadError | Some token \<Rightarrow> Inr token))"
  using assms
  by (auto simp: getIntegrityToken_def Let_def split: token_outcome.splits if_splits option.splits)

lemma issued_append [simp]: "exchanges w' = exchanges w @ new \<Longrightarrow> issued w w' = new"
  by (simp add: issued_def)

lemma issued_same [simp]: "exchanges w' = exchanges w \<Longrightarrow> issued w w' = []"
  by (simp add: issued_def)

section \<open>The error body\<close>

lemma errorMessageOf_nullish: "nullish d \<Longrightarrow> errorMessageOf d = Inl TypeError"
  by (cases d) (simp_all add: errorMessageOf_def)

lemma optional_item0: "optional item0 v = Inr (firstEntry v)"
  by (cases v rule: firstEntry.cases) (simp_all add: optional_def)

lemma optional_message: "optional (member ''message'') v = Inr (messageField v)"
  by (cases v) (simp_all add: optional_def)

lemma member_errors: "\<not> nullish d \<Longrightarrow> member ''errors'' d = Inr (errorsField d)"
  by (cases d) simp_all

lemma errorMessageOf_rejected: "\<not> nullish d \<Longrightarrow> errorMessageOf d = Inr (rejectedMessage d)"
  by (simp add: errorMessageOf_def rejectedMessage_def member_errors optional_item0
      optional_message Let_def)

lemma truthy_rejectedMessage: "truthy (rejectedMessage d)"
  by (simp add: rejectedMessage_def Let_def SUBSCRIPTION_FAILED_def)

lemma errorDataOf_None: "rejectedMessage (errorDataOf None) = JStr SUBSCRIPTION_FAILED"
  by (simp add: errorDataOf_def rejectedMessage_def)

text \<open>A run that issued the POST passed the check and got a token.\<close>

lemma run_with_post:
  assumes run: "subscribeToGhost net email base opts w = (r, w')"
      and post: "SubscribePost url hdrs body (PostResponse status json) \<in> set (issued w w')"
  obtains tok w1 where "\<not> invalidEmail email"
    and "getIntegrityToken net base w = (Inr tok, w1)"
    and "subscribe_endpoint net (subscribeUrl base) (buildPayload email tok opts) = PostResponse status json"
    and "url = subscribeUrl base" and "body = buildPayload email tok opts"
proof -
  have valid: "\<not> invalidEmail email"
  proof
    assume "invalidEmail email"
    with run have "w' = showInvalidEmail w" by (simp add: subscribeToGhost_def)
    then have "issued w w' = []" by simp
    with post show False by simp
  qed
  obtain x w1 where tok: "getIntegrityToken net base w = (x, w1)" by fastforce
  note fr = getIntegrityToken_frame(5) [OF tok]
  show thesis
  proof (cases x)
    case (Inl e)
    with run valid tok fr have "issued w w' = [TokenGet (tokenUrl base) tokenHeaders (token_endpoint net (tokenUrl base))]"
      by (auto simp: subscribeToGhost_def tryBlock_def)
    with post show thesis by simp
  next
    case (Inr t)
    with run valid tok fr have
      "issued w w' = [TokenGet (tokenUrl base) tokenHeaders (token_endpoint net (tokenUrl base)),
          SubscribePost (subscribeUrl base) postHeaders (buildPayload email t opts)
            (subscribe_endpoint net (subscribeUrl base) (buildPayload email t opts))]"
      by (auto simp: subscribeToGhost_def tryBlock_def Let_def markSubscribedThisSession_def
          split: prod.splits sum.splits post_outcome.splits if_splits)
    with post have "subscribe_endpoint net (subscribeUrl base) (buildPayload email t opts) = PostResponse status json"
      "url = subscribeUrl base" "body = buildPayload email t opts"
      by auto
    with that valid tok Inr show thesis by blast
  qed
qed

section \<open>The two-step handshake\<close>

text \<open>
  Claim C3. When the GET to the integrity-token endpoint gets no response, \<open>subscribeToGhost\<close>
  returns the failure with the generic network message, and the token request is the only
  request of the invocation: the subscription endpoint is never called.
\<close>

theorem unreachable_token_endpoint:
  assumes run: "subscribeToGhost net email base opts w = (r, w')"
      and get: "TokenGet url hdrs TokenUnreachable \<in> set (issued w w')"
  shows "r = \<lparr>success = False, message = None, error = Some (JStr NETWORK_ERROR)\<rparr>
       \<and> issued w w' = [TokenGet (tokenUrl base) tokenHeaders TokenUnreachable]"
proof (cases "invalidEmail email")
  case True
  with run have "w' = showInvalidEmail w" by (simp add: subscribeToGhost_def)
  then have "issued w w' = []" by simp
  with get show ?thesis by simp
next
  case False
  obtain x w1 where tok: "getIntegrityToken net base w = (x, w1)" by fastforce
  note fr = getIntegrityToken_frame [OF tok] and res = getIntegrityToken_result [OF tok]
  show ?thesis
  proof (cases "token_endpoint net (tokenUrl base)")
    case TokenUnreachable
    with res have "x = Inl FetchFailed" by simp
    with run False tok fr(5) TokenUnreachable show ?thesis
      by (auto simp: subscribeToGhost_def tryBlock_def)
  next
    case (TokenResponse status body)
    with run False tok fr(5) res get show ?thesis
      by (auto simp: subscribeToGhost_def tryBlock_def Let_def markSubscribedThisSession_def
          split: prod.splits sum.splits post_outcome.splits if_splits option.splits)
  qed
qed

text \<open>
  The example: the address is well formed and the server cannot be reached. The log of
  the run holds the one failed GET.
\<close>

theorem unreachable_token_endpoint_witness:
  "TokenGet (tokenUrl blog) tokenHeaders TokenUnreachable \<in> set (issued examplePage (snd unreachableRun))
   \<and> fst unreachableRun = \<lparr>success = False, message = None, error = Some (JStr NETWORK_ERROR)\<rparr>
   \<and> issued examplePage (snd unreachableRun) = [TokenGet (tokenUrl blog) tokenHeaders TokenUnreachable]"
proof -
  have run: "subscribeToGhost unreachableGhost ''user@example.com'' blog noOptions examplePage
               = (fst unreachableRun, snd unreachableRun)"
    by (simp add: unreachableRun_def)
  have get: "TokenGet (tokenUrl blog) tokenHeaders TokenUnreachable
               \<in> set (issued examplePage (snd unreachableRun))"
    by (simp add: unreachableRun_def subscribeToGhost_def invalidEmail_def tryBlock_def
        getIntegrityToken_def unreachableGhost_def Let_def)
  from unreachable_token_endpoint [OF run get] get show ?thesis by simp
qed

text \<open>
  Claim C1. When the token endpoint answers 200 with a token and the subscription endpoint
  answers 201, and the session storage takes the write of the flag, \<open>subscribeToGhost\<close>
  returns the success with its non-empty message, and the session flag reads true
  afterwards.
\<close>

theorem accepted_subscription_marks_session:
  assumes run: "subscribeToGhost net email base opts w = (r, w')"
      and get: "TokenGet url hdrs (TokenResponse 200 (Some token)) \<in> set (issued w w')"
      and post: "SubscribePost url' hdrs' body (PostResponse 201 json) \<in> set (issued w w')"
      and taken: "setItem (sessionStorage w) NEWSLETTER_SESSION_KEY ''true'' = Inr s"
  shows "r = \<lparr>success = True, message = Some SUCCESS_MESSAGE, error = None\<rparr>
       \<and> SUCCESS_MESSAGE \<noteq> []
       \<and> sessionStorage w' = s
       \<and> hasSubscribedThisSession w' = Inr True"
proof -
  from run post obtain tok w1 where valid: "\<not> invalidEmail email"
    and tok: "getIntegrityToken net base w = (Inr tok, w1)"
    and ans: "subscribe_endpoint net (subscribeUrl base) (buildPayload email tok opts) = PostResponse 201 json"
    by (rule run_with_post)
  note fr = getIntegrityToken_frame [OF tok]
  from run valid tok ans fr(1) taken
  have "r = \<lparr>success = True, message = Some SUCCESS_MESSAGE, error = None\<rparr>"
    and stored: "sessionStorage w' = s"
    by (auto simp: subscribeToGhost_def tryBlock_def Let_def markSubscribedThisSession_def)
  moreover from stored setItem_getItem [OF taken]
  have "hasSubscribedThisSession w' = Inr True"
    by (simp add: hasSubscribedThisSession_def)
  moreover have "SUCCESS_MESSAGE \<noteq> []"
    by (simp add: SUCCESS_MESSAGE_def)
  ultimately show ?thesis by simp
qed

text \<open>The example of the specification: token \<open>tok_abc123\<close>, then 201, on a page with storage.\<close>

lemma acceptedRun_log:
  "issued examplePage (snd acceptedRun) =
     [TokenGet (tokenUrl blog) tokenHeaders (TokenResponse 200 (Some ''tok_abc123'')),
      SubscribePost (subscribeUrl blog) postHeaders
        (buildPayload ''user@example.com'' ''tok_abc123'' noOptions) (PostResponse 201 None)]"
  by (simp add: acceptedRun_def subscribeToGhost_def invalidEmail_def tryBlock_def
      getIntegrityToken_def ghost_def ok_def Let_def markSubscribedThisSession_def
      examplePage_def unlimited_def)

theorem accepted_subscription_marks_session_witness:
  "TokenGet (tokenUrl blog) tokenHeaders (TokenResponse 200 (Some ''tok_abc123''))
     \<in> set (issued examplePage (snd acceptedRun))
   \<and> SubscribePost (subscribeUrl blog) postHeaders
        (buildPayload ''user@example.com'' ''tok_abc123'' noOptions) (PostResponse 201 None)
     \<in> set (issued examplePage (snd acceptedRun))
   \<and> setItem (sessionStorage examplePage) NEWSLETTER_SESSION_KEY ''true''
       = Inr (Available [NEWSLETTER_SESSION_KEY \<mapsto> ''true''] unlimited)
   \<and> hasSubscribedThisSession examplePage = Inr False
   \<and> fst acceptedRun = \<lparr>success = True, message = Some SUCCESS_MESSAGE, error = None\<rparr>
   \<and> SUCCESS_MESSAGE \<noteq> []
   \<and> hasSubscribedThisSession (snd acceptedRun) = Inr True"
proof -
  have run: "subscribeToGhost (ghost (PostResponse 201 None)) ''user@example.com'' blog noOptions examplePage
               = (fst acceptedRun, snd acceptedRun)"
    by (simp add: acceptedRun_def)
  have get: "TokenGet (tokenUrl blog) tokenHeaders (TokenResponse 200 (Some ''tok_abc123''))
               \<in> set (issued examplePage (snd acceptedRun))"
    by (simp add: acceptedRun_log)
  have post: "SubscribePost (subscribeUrl blog) postHeaders
                (buildPayload ''user@example.com'' ''tok_abc123'' noOptions) (PostResponse 201 None)
               \<in> set (issued examplePage (snd acceptedRun))"
    by (simp add: acceptedRun_log)
  have taken: "setItem (sessionStorage examplePage) NEWSLETTER_SESSION_KEY ''true''
                 = Inr (Available [NEWSLETTER_SESSION_KEY \<mapsto> ''true''] unlimited)"
    by (simp add: examplePage_def unlimited_def)
  have before: "hasSubscribedThisSession examplePage = Inr False"
    by (simp add: hasSubscribedThisSession_def examplePage_def)
  from accepted_subscription_marks_session [OF run get post taken] get post taken before
  show ?thesis by simp
qed

text \<open>
  The same two answers on a page whose storage the host has disabled, and on a page whose
  session storage has no quota: both requests are in the log with their 200 and 201, the
  write of the flag raises inside the \<open>try\<close> block, and the value returned is the failure
  with the network message.
\<close>

theorem accepted_subscription_counterexample:
  "issued blockedPage (snd blockedRun) =
     [TokenGet (tokenUrl blog) tokenHeaders (TokenResponse 200 (Some ''tok_abc123'')),
      SubscribePost (subscribeUrl blog) postHeaders
        (buildPayload ''user@example.com'' ''tok_abc123'' noOptions) (PostResponse 201 None)]
   \<and> fst blockedRun = \<lparr>success = False, message = None,
        error = Some (JStr ''Network error. Please check your connection and try again.'')\<rparr>
   \<and> issued crowdedPage (snd crowdedRun) =
     [TokenGet (tokenUrl blog) tokenHeaders (TokenResponse 200 (Some ''tok_abc123'')),
      SubscribePost (subscribeUrl blog) postHeaders
        (buildPayload ''user@example.com'' ''tok_abc123'' noOptions) (PostResponse 201 None)]
   \<and> fst crowdedRun = \<lparr>success = False, message = None,
        error = Some (JStr ''Network error. Please check your connection and try again.'')\<rparr>
   \<and> hasSubscribedThisSession (snd crowdedRun) = Inr False"
  by (simp add: blockedRun_def crowdedRun_def subscribeToGhost_def invalidEmail_def tryBlock_def
      getIntegrityToken_def ghost_def ok_def Let_def markSubscribedThisSession_def
      hasSubscribedThisSession_def blockedPage_def crowdedPage_def examplePage_def
      noRoom_def NETWORK_ERROR_def)

text \<open>
  What a rejection leaves behind, for every answer other than 201: a failure, both storage
  areas as they were, and as error the message read from the body; only a body that parses
  to \<open>null\<close> ends in the \<open>catch\<close> block and gives the network message.
\<close>

lemma rejected_subscription_frame:
  assumes run: "subscribeToGhost net email base opts w = (r, w')"
      and post: "SubscribePost url hdrs body (PostResponse status json) \<in> set (issued w w')"
      and status: "status \<noteq> 201"
  shows "success r = False \<and> message r = None
       \<and> (\<not> nullish (errorDataOf json) \<longrightarrow> error r = Some (rejectedMessage (errorDataOf json)))
       \<and> (nullish (errorDataOf json) \<longrightarrow> error r = Some (JStr NETWORK_ERROR))
       \<and> sessionStorage w' = sessionStorage w \<and> localStorage w' = localStorage w
       \<and> hasSubscribedThisSession w' = hasSubscribedThisSession w"
proof -
  from run post obtain tok w1 where valid: "\<not> invalidEmail email"
    and tok: "getIntegrityToken net base w = (Inr tok, w1)"
    and ans: "subscribe_endpoint net (subscribeUrl base) (buildPayload email tok opts) = PostResponse status json"
    by (rule run_with_post)
  note fr = getIntegrityToken_frame [OF tok]
  show ?thesis
  proof (cases "nullish (errorDataOf json)")
    case True
    with run valid tok ans fr(1,2) status errorMessageOf_nullish [OF True] show ?thesis
      by (auto simp: subscribeToGhost_def tryBlock_def Let_def hasSubscribedThisSession_def)
  next
    case False
    with run valid tok ans fr(1,2) status errorMessageOf_rejected [OF False] show ?thesis
      by (auto simp: subscribeToGhost_def tryBlock_def Let_def hasSubscribedThisSession_def)
  qed
qed

text \<open>
  Claim C5. When the subscription endpoint answers with a status other than 201,
  \<open>subscribeToGhost\<close> returns the failure whose error is the message extracted from the
  body, and the session flag is left as it was. The script does so at the example of the
  specification, status 400 with \<open>{"errors":[{"message":"Member already exists"}]}\<close>, and
  it gives the fallback sentence for a body that cannot be parsed. For status 400 with
  the body \<open>null\<close> it does not: \<open>errorData.errors\<close> raises, and the error returned is the
  network message, although the server has answered. The flag is untouched there too.
\<close>

theorem null_body_reported_as_network_error:
  "fst (rejectedRun (Some memberExists)) =
     \<lparr>success = False, message = None, error = Some (JStr ''Member already exists'')\<rparr>
   \<and> fst (rejectedRun None) =
     \<lparr>success = False, message = None,
      error = Some (JStr ''Subscription failed. Please try again.'')\<rparr>
   \<and> fst (rejectedRun (Some JNull)) =
     \<lparr>success = False, message = None,
      error = Some (JStr ''Network error. Please check your connection and try again.'')\<rparr>
   \<and> issued examplePage (snd (rejectedRun (Some JNull))) =
     [TokenGet (tokenUrl blog) tokenHeaders (TokenResponse 200 (Some ''tok_abc123'')),
      SubscribePost (subscribeUrl blog) postHeaders
        (buildPayload ''user@example.com'' ''tok_abc123'' noOptions) (PostResponse 400 (Some JNull))]
   \<and> hasSubscribedThisSession examplePage = Inr False
   \<and> hasSubscribedThisSession (snd (rejectedRun (Some JNull))) = Inr False"
  by (simp add: rejectedRun_def subscribeToGhost_def invalidEmail_def tryBlock_def
      getIntegrityToken_def ghost_def ok_def Let_def memberExists_def errorMessageOf_def
      errorDataOf_def optional_def hasSubscribedThisSession_def examplePage_def
      SUBSCRIPTION_FAILED_def NETWORK_ERROR_def)

section \<open>The address check\<close>

lemma showInvalidEmail_text:
  assumes "document w ''subscription-error'' = Some el" and "paragraphText el = Some old"
  shows "\<exists>el'. document (showInvalidEmail w) ''subscription-error'' = Some el'
           \<and> paragraphText el' = Some (JStr ''Please enter a valid email address'')"
  using assms
  by (simp add: showInvalidEmail_def showTemporaryMessage_def setParagraph_def removeClass_def
      Let_def)

lemma showErrorText_text:
  assumes "document w ''subscription-error'' = Some el"
  shows "\<exists>el'. document (showErrorText v w) ''subscription-error'' = Some el' \<and> textContent el' = v"
  using assms by (simp add: showErrorText_def)

text \<open>
  Claim C2. For every address without an \<open>@\<close>, \<open>subscribeToGhost\<close> returns the failure
  whose error is \<open>Invalid email address\<close> and issues no request, in part_000 and in
  part_001 alike. The sentence \<open>Please enter a valid email address\<close> is what the page
  shows in its error element, not what the function returns.
\<close>

theorem malformed_email_rejected:
  assumes "CHR ''@'' \<notin> set email"
  shows "subscribeToGhost net email base opts w =
           (\<lparr>success = False, message = None, error = Some (JStr ''Invalid email address'')\<rparr>,
            showInvalidEmail w)
       \<and> issued w (showInvalidEmail w) = []
       \<and> sessionStorage (showInvalidEmail w) = sessionStorage w
       \<and> localStorage (showInvalidEmail w) = localStorage w
       \<and> (\<forall>el old. document w ''subscription-error'' = Some el \<and> paragraphText el = Some old \<longrightarrow>
            (\<exists>el'. document (showInvalidEmail w) ''subscription-error'' = Some el'
               \<and> paragraphText el' = Some (JStr ''Please enter a valid email address'')))
       \<and> subscribeToGhost_part001 net email base opts w =
           (\<lparr>success = False, message = None, error = Some (JStr ''Invalid email address'')\<rparr>,
            showErrorText (JStr ''Please enter a valid email address'') w)
       \<and> issued w (showErrorText (JStr ''Please enter a valid email address'') w) = []"
  using assms
  by (auto simp: subscribeToGhost_def subscribeToGhost_part001_def invalidEmail_def
      dest: showInvalidEmail_text)

text \<open>An address without the sign, on the example page.\<close>

theorem malformed_email_rejected_witness:
  "CHR ''@'' \<notin> set ''userexample.com''
   \<and> malformedRun =
       (\<lparr>success = False, message = None, error = Some (JStr ''Invalid email address'')\<rparr>,
        showInvalidEmail examplePage)
   \<and> issued examplePage (snd malformedRun) = []"
proof -
  have h: "CHR ''@'' \<notin> set ''userexample.com''" by simp
  from malformed_email_rejected [OF h, of unreachableGhost blog noOptions examplePage] h
  show ?thesis by (simp add: malformedRun_def)
qed

text \<open>The value returned for that address is not the one with the sentence of the page.\<close>

theorem malformed_email_counterexample:
  "fst malformedRun = \<lparr>success = False, message = None, error = Some (JStr ''Invalid email address'')\<rparr>
   \<and> fst malformedRun \<noteq>
       \<lparr>success = False, message = None, error = Some (JStr ''Please enter a valid email address'')\<rparr>"
  by (simp add: malformedRun_def subscribeToGhost_def invalidEmail_def)

section \<open>The message of a rejection\<close>

lemma run_with_post_part001:
  assumes run: "subscribeToGhost_part001 net email base opts w = (r, w')"
      and post: "SubscribePost url hdrs body (PostResponse status json) \<in> set (issued w w')"
  obtains tok w1 where "\<not> invalidEmail email"
    and "getIntegrityToken net base w = (Inr tok, w1)"
    and "subscribe_endpoint net (subscribeUrl base) (buildPayload email tok opts) = PostResponse status json"
proof -
  have valid: "\<not> invalidEmail email"
  proof
    assume "invalidEmail email"
    with run have "w' = showErrorText (JStr ''Please enter a valid email address'') w"
      by (simp add: subscribeToGhost_part001_def)
    then have "issued w w' = []" by simp
    with post show False by simp
  qed
  obtain x w1 where tok: "getIntegrityToken net base w = (x, w1)" by fastforce
  note fr = getIntegrityToken_frame(5) [OF tok]
  show thesis
  proof (cases x)
    case (Inl e)
    with run valid tok fr have "issued w w' = [TokenGet (tokenUrl base) tokenHeaders (token_endpoint net (tokenUrl base))]"
      by (auto simp: subscribeToGhost_part001_def tryBlock_part001_def)
    with post show thesis by simp
  next
    case (Inr t)
    with run valid tok fr have
      "issued w w' = [TokenGet (tokenUrl base) tokenHeaders (token_endpoint net (tokenUrl base)),
          SubscribePost (subscribeUrl base) postHeaders (buildPayload email t opts)
            (subscribe_endpoint net (subscribeUrl base) (buildPayload email t opts))]"
      by (auto simp: subscribeToGhost_part001_def tryBlock_part001_def Let_def markUserAsSubscribed_def
          split: prod.splits sum.splits post_outcome.splits if_splits)
    with post have "subscribe_endpoint net (subscribeUrl base) (buildPayload email t opts) = PostResponse status json"
      by auto
    with that valid tok Inr show thesis by blast
  qed
qed

text \<open>
  Claim C4. For every answer of the subscription endpoint with a status other than 201
  whose body does not parse to \<open>null\<close>, the returned error is the \<open>message\<close> of the first
  entry of the body's \<open>errors\<close> when that value is truthy, and the fallback sentence
  otherwise: when there is no such entry or field, and when the field is empty, zero,
  false or null. A body that fails to parse is read as the empty object: nothing is
  raised and the error is the fallback sentence. Both scripts read the body this way.
\<close>

theorem rejected_message_extraction:
  assumes status: "status \<noteq> 201"
      and body: "\<not> nullish (errorDataOf json)"
  shows "(\<forall>r w' url hdrs p.
            subscribeToGhost net email base opts w = (r, w') \<and>
            SubscribePost url hdrs p (PostResponse status json) \<in> set (issued w w') \<longrightarrow>
            r = \<lparr>success = False, message = None,
                 error = Some (rejectedMessage (errorDataOf json))\<rparr>)
       \<and> (\<forall>r w' url hdrs p.
            subscribeToGhost_part001 net email base opts w = (r, w') \<and>
            SubscribePost url hdrs p (PostResponse status json) \<in> set (issued w w') \<longrightarrow>
            r = \<lparr>success = False, message = None,
                 error = Some (rejectedMessage (errorDataOf json))\<rparr>)
       \<and> (json = None \<longrightarrow> rejectedMessage (errorDataOf json) = JStr SUBSCRIPTION_FAILED)"
proof (intro conjI allI impI)
  fix r w' url hdrs p
  assume a: "subscribeToGhost net email base opts w = (r, w') \<and>
             SubscribePost url hdrs p (PostResponse status json) \<in> set (issued w w')"
  then obtain tok w1 where valid: "\<not> invalidEmail email"
    and tok: "getIntegrityToken net base w = (Inr tok, w1)"
    and ans: "subscribe_endpoint net (subscribeUrl base) (buildPayload email tok opts) = PostResponse status json"
    by (blast elim: run_with_post)
  from a valid tok ans status errorMessageOf_rejected [OF body]
  show "r = \<lparr>success = False, message = None, error = Some (rejectedMessage (errorDataOf json))\<rparr>"
    by (auto simp: subscribeToGhost_def tryBlock_def Let_def)
next
  fix r w' url hdrs p
  assume a: "subscribeToGhost_part001 net email base opts w = (r, w') \<and>
             SubscribePost url hdrs p (PostResponse status json) \<in> set (issued w w')"
  then obtain tok w1 where valid: "\<not> invalidEmail email"
    and tok: "getIntegrityToken net base w = (Inr tok, w1)"
    and ans: "subscribe_endpoint net (subscribeUrl base) (buildPayload email tok opts) = PostResponse status json"
    by (blast elim: run_with_post_part001)
  from a valid tok ans status errorMessageOf_rejected [OF body]
  show "r = \<lparr>success = False, message = None, error = Some (rejectedMessage (errorDataOf json))\<rparr>"
    by (auto simp: subscribeToGhost_part001_def tryBlock_part001_def Let_def)
next
  assume "json = None"
  then show "rejectedMessage (errorDataOf json) = JStr SUBSCRIPTION_FAILED"
    by (simp add: errorDataOf_None)
qed

text \<open>
  The example of the specification in both scripts, and an answer whose body cannot be
  parsed.
\<close>

lemma rejectedRun_log:
  "issued examplePage (snd (rejectedRun json)) =
     [TokenGet (tokenUrl blog) tokenHeaders (TokenResponse 200 (Some ''tok_abc123'')),
      SubscribePost (subscribeUrl blog) postHeaders
        (buildPayload ''user@example.com'' ''tok_abc123'' noOptions) (PostResponse 400 json)]"
  by (simp add: rejectedRun_def subscribeToGhost_def invalidEmail_def tryBlock_def
      getIntegrityToken_def ghost_def ok_def Let_def split: sum.splits)

lemma rejectedRun_part001_log:
  "issued examplePage (snd (rejectedRun_part001 json)) =
     [TokenGet (tokenUrl blog) tokenHeaders (TokenResponse 200 (Some ''tok_abc123'')),
      SubscribePost (subscribeUrl blog) postHeaders
        (buildPayload ''user@example.com'' ''tok_abc123'' noOptions) (PostResponse 400 json)]"
  by (simp add: rejectedRun_part001_def subscribeToGhost_part001_def invalidEmail_def
      tryBlock_part001_def getIntegrityToken_def ghost_def ok_def Let_def split: sum.splits)

theorem rejected_message_extraction_witness:
  "(400::nat) \<noteq> 201
   \<and> \<not> nullish (errorDataOf (Some memberExists))
   \<and> SubscribePost (subscribeUrl blog) postHeaders
        (buildPayload ''user@example.com'' ''tok_abc123'' noOptions)
        (PostResponse 400 (Some memberExists))
       \<in> set (issued examplePage (snd (rejectedRun (Some memberExists))))
   \<and> fst (rejectedRun (Some memberExists)) =
       \<lparr>success = False, message = None, error = Some (JStr ''Member already exists'')\<rparr>
   \<and> SubscribePost (subscribeUrl blog) postHeaders
        (buildPayload ''user@example.com'' ''tok_abc123'' noOptions)
        (PostResponse 400 (Some memberExists))
       \<in> set (issued examplePage (snd (rejectedRun_part001 (Some memberExists))))
   \<and> fst (rejectedRun_part001 (Some memberExists)) =
       \<lparr>success = False, message = None, error = Some (JStr ''Member already exists'')\<rparr>
   \<and> \<not> nullish (errorDataOf None)
   \<and> SubscribePost (subscribeUrl blog) postHeaders
        (buildPayload ''user@example.com'' ''tok_abc123'' noOptions) (PostResponse 400 None)
       \<in> set (issued examplePage (snd (rejectedRun None)))
   \<and> fst (rejectedRun None) =
       \<lparr>success = False, message = None, error = Some (JStr SUBSCRIPTION_FAILED)\<rparr>"
proof -
  have status: "(400::nat) \<noteq> 201" by simp
  have body: "\<not> nullish (errorDataOf (Some memberExists))"
    by (simp add: errorDataOf_def memberExists_def)
  have unparsed: "\<not> nullish (errorDataOf None)"
    by (simp add: errorDataOf_def)
  have msg: "rejectedMessage (errorDataOf (Some memberExists)) = JStr ''Member already exists''"
    by (simp add: errorDataOf_def memberExists_def rejectedMessage_def)
  have run: "subscribeToGhost (ghost (PostResponse 400 json)) ''user@example.com'' blog
               noOptions examplePage
             = (fst (rejectedRun json), snd (rejectedRun json))" for json
    by (simp add: rejectedRun_def)
  have run1: "subscribeToGhost_part001 (ghost (PostResponse 400 json)) ''user@example.com'' blog
               noOptions examplePage
             = (fst (rejectedRun_part001 json), snd (rejectedRun_part001 json))" for json
    by (simp add: rejectedRun_part001_def)
  have post: "SubscribePost (subscribeUrl blog) postHeaders
        (buildPayload ''user@example.com'' ''tok_abc123'' noOptions) (PostResponse 400 json)
       \<in> set (issued examplePage (snd (rejectedRun json)))" for json
    by (simp add: rejectedRun_log)
  have post1: "SubscribePost (subscribeUrl blog) postHeaders
        (buildPayload ''user@example.com'' ''tok_abc123'' noOptions) (PostResponse 400 json)
       \<in> set (issued examplePage (snd (rejectedRun_part001 json)))" for json
    by (simp add: rejectedRun_part001_log)
  note parsed = rejected_message_extraction [OF status body,
      of "ghost (PostResponse 400 (Some memberExists))" "''user@example.com''" blog noOptions examplePage]
  note failed = rejected_message_extraction [OF status unparsed,
      of "ghost (PostResponse 400 None)" "''user@example.com''" blog noOptions examplePage]
  from parsed run post have
    "fst (rejectedRun (Some memberExists)) =
       \<lparr>success = False, message = None, error = Some (rejectedMessage (errorDataOf (Some memberExists)))\<rparr>"
    by blast
  moreover from parsed run1 post1 have
    "fst (rejectedRun_part001 (Some memberExists)) =
       \<lparr>success = False, message = None, error = Some (rejectedMessage (errorDataOf (Some memberExists)))\<rparr>"
    by blast
  moreover from failed run post have
    "fst (rejectedRun None) =
       \<lparr>success = False, message = None, error = Some (rejectedMessage (errorDataOf None))\<rparr>"
    by blast
  moreover from failed have "rejectedMessage (errorDataOf None) = JStr SUBSCRIPTION_FAILED"
    by blast
  ultimately show ?thesis using status body unparsed post post1 msg by simp
qed

text \<open>
  Status 400 with the body \<open>{"errors":[{"message":""}]}\<close>: the field is there and the
  error is the fallback sentence, not the field. Status 400 with the body \<open>null\<close>: the
  error is the network message, not the fallback sentence.
\<close>

theorem rejected_message_counterexample:
  "messageField (firstEntry (errorsField emptyMessage)) = JStr []
   \<and> fst (rejectedRun (Some emptyMessage)) =
       \<lparr>success = False, message = None,
        error = Some (JStr ''Subscription failed. Please try again.'')\<rparr>
   \<and> fst (rejectedRun (Some JNull)) =
       \<lparr>success = False, message = None,
        error = Some (JStr ''Network error. Please check your connection and try again.'')\<rparr>"
  by (simp add: rejectedRun_def subscribeToGhost_def invalidEmail_def tryBlock_def
      getIntegrityToken_def ghost_def ok_def Let_def emptyMessage_def errorMessageOf_def
      errorDataOf_def optional_def SUBSCRIPTION_FAILED_def NETWORK_ERROR_def)

section \<open>The shape of the returned value\<close>

lemma errorMessageOf_Inr:
  assumes "errorMessageOf d = Inr m"
  shows "truthy m \<and> (m = JStr SUBSCRIPTION_FAILED \<or> m = messageField (firstEntry (errorsField d)))"
proof (cases "nullish d")
  case True
  with assms show ?thesis by (simp add: errorMessageOf_nullish)
next
  case False
  with assms have "m = rejectedMessage d" by (simp add: errorMessageOf_rejected)
  then show ?thesis
    by (simp add: rejectedMessage_def Let_def SUBSCRIPTION_FAILED_def)
qed

text \<open>
  The promise of \<open>subscribeToGhost\<close> always resolves, and to the value of the function:
  the check returns, and whatever fault ends the \<open>try\<close> block is taken by the handler.
\<close>

lemma subscribeToGhost_promise_resolves:
  "subscribeToGhost_promise net email base opts w =
     (Inr (fst (subscribeToGhost net email base opts w)),
      snd (subscribeToGhost net email base opts w))"
  by (simp add: subscribeToGhost_promise_def subscribeToGhost_def tryCatch_def catchBlock_def
      split: prod.splits sum.splits)

text \<open>
  Claim C7. Every value \<open>subscribeToGhost\<close> of part_000 returns has a boolean \<open>success\<close> and
  exactly one of \<open>message\<close> and \<open>error\<close>: the non-empty success message when \<open>success\<close> is
  true, a truthy \<open>error\<close> when it is false. The error is a string whenever no answer of
  the subscription endpoint carries, as the message of its first error entry, a truthy
  value that is not a string. No fault reaches the caller: the promise resolves, to that
  value. The \<open>subscribeToGhost\<close> of src/ghost-subscribe.js lets no fault out either, but
  it returns no such object: its promise resolves to \<open>undefined\<close>.
\<close>

theorem result_shape:
  assumes run: "subscribeToGhost net email base opts w = (r, w')"
  shows "fst (subscribeToGhost_promise net email base opts w) = Inr r
       \<and> (success r \<longrightarrow> message r = Some SUCCESS_MESSAGE \<and> SUCCESS_MESSAGE \<noteq> [] \<and> error r = None)
       \<and> (\<not> success r \<longrightarrow> message r = None \<and> (\<exists>v. error r = Some v \<and> truthy v))
       \<and> ((\<forall>url hdrs body status json.
               SubscribePost url hdrs body (PostResponse status json) \<in> set (issued w w')
               \<and> status \<noteq> 201
               \<and> truthy (messageField (firstEntry (errorsField (errorDataOf json))))
               \<longrightarrow> isString (messageField (firstEntry (errorsField (errorDataOf json)))))
            \<longrightarrow> (\<forall>v. error r = Some v \<longrightarrow> isString v))
       \<and> fst (subscribeToGhost_legacy net email base w) = Inr JUndefined"
proof -
  have legacy: "fst (subscribeToGhost_legacy net email base w) = Inr JUndefined"
    by (simp add: subscribeToGhost_legacy_def Let_def)
  from run have resolves: "fst (subscribeToGhost_promise net email base opts w) = Inr r"
    by (simp add: subscribeToGhost_promise_resolves)
  have shape: "(success r \<longrightarrow> message r = Some SUCCESS_MESSAGE \<and> SUCCESS_MESSAGE \<noteq> [] \<and> error r = None)
       \<and> (\<not> success r \<longrightarrow> message r = None \<and> (\<exists>v. error r = Some v \<and> truthy v))
       \<and> ((\<forall>url hdrs body status json.
               SubscribePost url hdrs body (PostResponse status json) \<in> set (issued w w')
               \<and> status \<noteq> 201
               \<and> truthy (messageField (firstEntry (errorsField (errorDataOf json))))
               \<longrightarrow> isString (messageField (firstEntry (errorsField (errorDataOf json)))))
            \<longrightarrow> (\<forall>v. error r = Some v \<longrightarrow> isString v))"
  proof (cases "invalidEmail email")
    case True
    with run show ?thesis
      by (auto simp: subscribeToGhost_def)
  next
    case False
    obtain x w1 where tok: "getIntegrityToken net base w = (x, w1)" by fastforce
    note fr = getIntegrityToken_frame(5) [OF tok]
    show ?thesis
    proof (cases x)
      case (Inl e)
      with run False tok show ?thesis
        by (auto simp: subscribeToGhost_def tryBlock_def NETWORK_ERROR_def)
    next
      case (Inr t)
      let ?p = "buildPayload email t opts"
      show ?thesis
      proof (cases "subscribe_endpoint net (subscribeUrl base) ?p")
        case PostUnreachable
        with run False tok Inr show ?thesis
          by (auto simp: subscribeToGhost_def tryBlock_def Let_def NETWORK_ERROR_def)
      next
        case (PostResponse status json)
        show ?thesis
        proof (cases "status = 201")
          case True
          with run False tok Inr PostResponse show ?thesis
            by (auto simp: subscribeToGhost_def tryBlock_def Let_def NETWORK_ERROR_def
                SUCCESS_MESSAGE_def split: sum.splits)
        next
          case rejected: False
          show ?thesis
          proof (cases "errorMessageOf (errorDataOf json)")
            case (Inl e)
            with run False tok Inr PostResponse rejected show ?thesis
              by (auto simp: subscribeToGhost_def tryBlock_def Let_def NETWORK_ERROR_def)
          next
            case inr: (Inr m)
            from errorMessageOf_Inr [OF inr] have m: "truthy m"
              "m = JStr SUBSCRIPTION_FAILED \<or> m = messageField (firstEntry (errorsField (errorDataOf json)))"
              by simp_all
            from run False tok Inr PostResponse rejected inr
            have r: "r = \<lparr>success = False, message = None, error = Some m\<rparr>"
              and w': "w' = showError m (w1\<lparr>exchanges := exchanges w1 @
                         [SubscribePost (subscribeUrl base) postHeaders ?p (PostResponse status json)]\<rparr>)"
              by (auto simp: subscribeToGhost_def tryBlock_def Let_def)
            from w' fr have "issued w w' =
                [TokenGet (tokenUrl base) tokenHeaders (token_endpoint net (tokenUrl base)),
                 SubscribePost (subscribeUrl base) postHeaders ?p (PostResponse status json)]"
              by simp
            then have sent: "SubscribePost (subscribeUrl base) postHeaders ?p (PostResponse status json)
                         \<in> set (issued w w')"
              by simp
            have "isString m"
              if strings: "\<forall>url hdrs body status json.
                 SubscribePost url hdrs body (PostResponse status json) \<in> set (issued w w')
                 \<and> status \<noteq> 201
                 \<and> truthy (messageField (firstEntry (errorsField (errorDataOf json))))
                 \<longrightarrow> isString (messageField (firstEntry (errorsField (errorDataOf json))))"
              using m(2)
            proof
              assume "m = JStr SUBSCRIPTION_FAILED"
              then show ?thesis by simp
            next
              assume field: "m = messageField (firstEntry (errorsField (errorDataOf json)))"
              with m(1) sent rejected strings show ?thesis by blast
            qed
            with r m(1) show ?thesis by simp
          qed
        qed
      qed
    qed
  qed
  with resolves legacy show ?thesis by simp
qed

text \<open>An accepted and a rejected subscription on the example page.\<close>

theorem result_shape_witness:
  "fst (subscribeToGhost_promise (ghost (PostResponse 201 None)) ''user@example.com'' blog noOptions
        examplePage) = Inr (fst acceptedRun)
   \<and> success (fst acceptedRun)
   \<and> message (fst acceptedRun) = Some SUCCESS_MESSAGE
   \<and> error (fst acceptedRun) = None
   \<and> fst (subscribeToGhost_promise (ghost (PostResponse 400 (Some memberExists))) ''user@example.com''
        blog noOptions examplePage) = Inr (fst (rejectedRun (Some memberExists)))
   \<and> \<not> success (fst (rejectedRun (Some memberExists)))
   \<and> message (fst (rejectedRun (Some memberExists))) = None
   \<and> error (fst (rejectedRun (Some memberExists))) = Some (JStr ''Member already exists'')
   \<and> isString (messageField (firstEntry (errorsField (errorDataOf (Some memberExists)))))
   \<and> isString (JStr ''Member already exists'')"
proof -
  have run: "subscribeToGhost (ghost (PostResponse 201 None)) ''user@example.com'' blog noOptions examplePage
               = (fst acceptedRun, snd acceptedRun)"
    by (simp add: acceptedRun_def)
  have run': "subscribeToGhost (ghost (PostResponse 400 (Some memberExists))) ''user@example.com'' blog
               noOptions examplePage
             = (fst (rejectedRun (Some memberExists)), snd (rejectedRun (Some memberExists)))"
    by (simp add: rejectedRun_def)
  have yes: "success (fst acceptedRun)"
    by (simp add: acceptedRun_def subscribeToGhost_def invalidEmail_def tryBlock_def
        getIntegrityToken_def ghost_def ok_def Let_def markSubscribedThisSession_def
        examplePage_def unlimited_def)
  have no: "\<not> success (fst (rejectedRun (Some memberExists)))"
    "error (fst (rejectedRun (Some memberExists))) = Some (JStr ''Member already exists'')"
    by (simp_all add: rejectedRun_def subscribeToGhost_def invalidEmail_def tryBlock_def
        getIntegrityToken_def ghost_def ok_def Let_def memberExists_def errorMessageOf_def
        errorDataOf_def optional_def)
  have field: "isString (messageField (firstEntry (errorsField (errorDataOf (Some memberExists)))))"
    by (simp add: errorDataOf_def memberExists_def)
  from result_shape [OF run] result_shape [OF run'] yes no field show ?thesis by simp
qed

text \<open>
  The script of src/ghost-subscribe.js returns \<open>undefined\<close>, whatever the server answers.
  And status 400 with the body \<open>{"errors":[{"message":42}]}\<close> makes the script of part_000
  return the number as its error.
\<close>

theorem result_shape_counterexample:
  "fst (subscribeToGhost_legacy (ghost (PostResponse 201 None)) ''user@example.com'' blog examplePage)
       = Inr JUndefined
   \<and> fst (rejectedRun (Some numericMessage)) =
     \<lparr>success = False, message = None, error = Some (JNum 42)\<rparr>"
  by (simp add: rejectedRun_def subscribeToGhost_def invalidEmail_def tryBlock_def
      getIntegrityToken_def ghost_def ok_def Let_def numericMessage_def errorMessageOf_def
      errorDataOf_def optional_def subscribeToGhost_legacy_def)

section \<open>The two flags\<close>

lemma subscribe_storage:
  assumes run: "subscribeToGhost net email base opts w = (r, w')"
  shows "localStorage w' = localStorage w"
    and "sessionStorage w' = sessionStorage w
         \<or> setItem (sessionStorage w) NEWSLETTER_SESSION_KEY ''true'' = Inr (sessionStorage w')"
proof -
  obtain x w1 where tok: "getIntegrityToken net base w = (x, w1)" by fastforce
  note fr = getIntegrityToken_frame(1,2) [OF tok]
  from run tok fr show "localStorage w' = localStorage w"
    by (auto simp: subscribeToGhost_def tryBlock_def Let_def markSubscribedThisSession_def
          split: if_splits sum.splits post_outcome.splits)
  from run tok fr show "sessionStorage w' = sessionStorage w
         \<or> setItem (sessionStorage w) NEWSLETTER_SESSION_KEY ''true'' = Inr (sessionStorage w')"
    by (auto simp: subscribeToGhost_def tryBlock_def Let_def markSubscribedThisSession_def
          split: if_splits sum.splits post_outcome.splits)
qed

lemma subscribed_iff:
  "hasSubscribedThisSession w = Inr True \<longleftrightarrow>
     getItem (sessionStorage w) NEWSLETTER_SESSION_KEY = Inr (Some ''true'')"
  by (auto simp: hasSubscribedThisSession_def split: sum.splits)

text \<open>No call but \<open>clearSessionSubscription\<close> takes the session flag away.\<close>

lemma perform_keeps_subscribed:
  assumes "hasSubscribedThisSession w = Inr True" and "x \<noteq> ClearSession"
      and "perform x w = Inr w'"
  shows "hasSubscribedThisSession w' = Inr True"
proof (cases x)
  case MarkSubscribed
  with assms(3) obtain s where "setItem (sessionStorage w) NEWSLETTER_SESSION_KEY ''true'' = Inr s"
    and "sessionStorage w' = s"
    by (auto simp: markSubscribedThisSession_def split: sum.splits)
  then show ?thesis
    by (simp add: subscribed_iff setItem_getItem)
next
  case ClearSession
  with assms(2) show ?thesis by simp
next
  case Dismiss
  with assms(1,3) show ?thesis
    by (auto simp: subscribed_iff dismissNewsletter_def split: sum.splits)
next
  case ClearDismissal
  with assms(1,3) show ?thesis
    by (auto simp: subscribed_iff clearDismissal_def split: sum.splits)
next
  case PageLoad
  with assms(1,3) show ?thesis
    by (auto simp: subscribed_iff initNewsletterForm_def split: sum.splits if_splits)
next
  case (Subscribe net email base opts)
  obtain r where run: "subscribeToGhost net email base opts w = (r, w')"
    using assms(3) Subscribe by (cases "subscribeToGhost net email base opts w") simp
  from subscribe_storage(2) [OF run] assms(1) show ?thesis
    by (auto simp: subscribed_iff setItem_getItem)
qed

lemma performAll_keeps_subscribed:
  assumes "hasSubscribedThisSession w = Inr True" and "ClearSession \<notin> set xs"
      and "performAll xs w = Inr w'"
  shows "hasSubscribedThisSession w' = Inr True"
  using assms
proof (induction xs arbitrary: w)
  case Nil
  then show ?case by simp
next
  case (Cons x xs)
  from Cons.prems(3) obtain w1 where step: "perform x w = Inr w1" and rest: "performAll xs w1 = Inr w'"
    by (auto split: sum.splits)
  from Cons.prems(2) have "x \<noteq> ClearSession" by auto
  with Cons.prems(1) have "hasSubscribedThisSession w1 = Inr True"
    using step by (rule perform_keeps_subscribed)
  with Cons.IH rest Cons.prems(2) show ?case by simp
qed

text \<open>
  Claim C8. Once \<open>markSubscribedThisSession\<close> has been performed, \<open>shouldShowForm\<close> returns
  false after any further calls of the script other than \<open>clearSessionSubscription\<close>;
  \<open>clearSessionSubscription\<close> then succeeds, and after it \<open>shouldShowForm\<close> returns true
  when the permanent-dismissal flag reads false.
\<close>

theorem session_flag_round_trip:
  assumes mark: "markSubscribedThisSession w = Inr w1"
      and calls: "ClearSession \<notin> set xs"
      and later: "performAll xs w1 = Inr w2"
  shows "shouldShowForm w2 = Inr False
       \<and> (\<exists>w3. clearSessionSubscription w2 = Inr w3
             \<and> (hasUserDismissedPermanently w3 = Inr False \<longrightarrow> shouldShowForm w3 = Inr True))"
proof -
  from mark obtain s where "setItem (sessionStorage w) NEWSLETTER_SESSION_KEY ''true'' = Inr s"
    and "sessionStorage w1 = s"
    by (auto simp: markSubscribedThisSession_def split: sum.splits)
  then have "hasSubscribedThisSession w1 = Inr True"
    by (simp add: subscribed_iff setItem_getItem)
  then have sub: "hasSubscribedThisSession w2 = Inr True"
    using calls later by (rule performAll_keeps_subscribed)
  then have read: "getItem (sessionStorage w2) NEWSLETTER_SESSION_KEY = Inr (Some ''true'')"
    by (simp add: subscribed_iff)
  from sub have "shouldShowForm w2 = Inr False"
    by (simp add: shouldShowForm_def)
  moreover from removeItem_returns [OF read] obtain s' where
    gone: "removeItem (sessionStorage w2) NEWSLETTER_SESSION_KEY = Inr s'"
    by blast
  then have "clearSessionSubscription w2 = Inr (w2\<lparr>sessionStorage := s'\<rparr>)"
    by (simp add: clearSessionSubscription_def)
  moreover from removeItem_getItem [OF gone]
  have "hasUserDismissedPermanently (w2\<lparr>sessionStorage := s'\<rparr>) = Inr False \<longrightarrow>
      shouldShowForm (w2\<lparr>sessionStorage := s'\<rparr>) = Inr True"
    by (simp add: shouldShowForm_def hasSubscribedThisSession_def)
  ultimately show ?thesis by simp
qed

text \<open>
  The example page: the flag is set, the page is loaded again, the visitor dismisses the
  form and the dismissal is cleared; then the session flag is cleared.
\<close>

theorem session_flag_round_trip_witness:
  "markSubscribedThisSession examplePage = Inr subscribedPage
   \<and> ClearSession \<notin> set [PageLoad, Dismiss, ClearDismissal]
   \<and> performAll [PageLoad, Dismiss, ClearDismissal] subscribedPage = Inr laterPage
   \<and> shouldShowForm laterPage = Inr False
   \<and> clearSessionSubscription laterPage = Inr clearedPage
   \<and> hasUserDismissedPermanently clearedPage = Inr False
   \<and> shouldShowForm clearedPage = Inr True"
proof -
  have mark: "markSubscribedThisSession examplePage = Inr subscribedPage"
    by (simp add: markSubscribedThisSession_def subscribedPage_def examplePage_def unlimited_def)
  have calls: "ClearSession \<notin> set [PageLoad, Dismiss, ClearDismissal]"
    by simp
  have later: "performAll [PageLoad, Dismiss, ClearDismissal] subscribedPage = Inr laterPage"
    by (simp add: initNewsletterForm_def shouldShowForm_def hasSubscribedThisSession_def
        hideNewsletterWrapper_def addClass_def dismissNewsletter_def clearDismissal_def
        subscribedPage_def laterPage_def hiddenWrapper_def examplePage_def plainElement_def
        unlimited_def)
  have clear: "clearSessionSubscription laterPage = Inr clearedPage"
    by (simp add: clearSessionSubscription_def laterPage_def subscribedPage_def clearedPage_def
        examplePage_def)
  have flag: "hasUserDismissedPermanently clearedPage = Inr False"
    by (simp add: hasUserDismissedPermanently_def clearedPage_def examplePage_def)
  from session_flag_round_trip [OF mark calls later] mark calls later clear flag
  show ?thesis by simp
qed

text \<open>
  Claim C9. Dismissing is idempotent: when \<open>dismissNewsletter\<close> has been performed, the
  permanent flag reads true, and a second \<open>dismissNewsletter\<close> returns without a fault and
  leaves the storage, and the page, exactly as the first one left them.
\<close>

theorem dismissNewsletter_idempotent:
  assumes "dismissNewsletter w = Inr w1"
  shows "hasUserDismissedPermanently w1 = Inr True \<and> dismissNewsletter w1 = Inr w1"
proof -
  from assms obtain s where first: "setItem (localStorage w) NEWSLETTER_NEVER_SHOW_KEY ''true'' = Inr s"
    and w1: "w1 = addClass ''subscription-form-wrapper'' ''hidden'' (w\<lparr>localStorage := s\<rparr>)"
    by (auto simp: dismissNewsletter_def split: sum.splits)
  from w1 have stored: "localStorage w1 = s" by simp
  with setItem_getItem [OF first] have flag: "hasUserDismissedPermanently w1 = Inr True"
    by (simp add: hasUserDismissedPermanently_def)
  from stored setItem_getItem [OF first]
  have "setItem (localStorage w1) NEWSLETTER_NEVER_SHOW_KEY ''true'' = Inr (localStorage w1)"
    by (simp add: setItem_again)
  moreover have "addClass ''subscription-form-wrapper'' ''hidden'' (w1\<lparr>localStorage := localStorage w1\<rparr>) = w1"
    unfolding w1 by (simp add: addClass_def split: option.splits)
  ultimately have "dismissNewsletter w1 = Inr w1"
    by (simp add: dismissNewsletter_def)
  with flag show ?thesis by simp
qed

theorem dismissNewsletter_idempotent_witness:
  "dismissNewsletter examplePage = Inr dismissedPage
   \<and> hasUserDismissedPermanently dismissedPage = Inr True
   \<and> dismissNewsletter dismissedPage = Inr dismissedPage"
proof -
  have first: "dismissNewsletter examplePage = Inr dismissedPage"
    by (simp add: dismissNewsletter_def addClass_def dismissedPage_def hiddenWrapper_def
        examplePage_def plainElement_def unlimited_def)
  from dismissNewsletter_idempotent [OF first] first show ?thesis by simp
qed

text \<open>
  Claim C10. The two flags are independent, from every starting state. After
  \<open>markSubscribedThisSession\<close> or \<open>clearSessionSubscription\<close> the permanent storage, and so
  the permanent-dismissal flag, is unchanged, and so is every key of the session storage
  other than \<open>newsletter_subscribed_session\<close>. After \<open>dismissNewsletter\<close> or \<open>clearDismissal\<close>
  the session storage, and so the session flag, is unchanged, and so is every key of the
  permanent storage other than \<open>newsletter_never_show\<close>. The two keys differ.
\<close>

theorem flags_independent:
  "(\<forall>call \<in> {markSubscribedThisSession, clearSessionSubscription}.
       localStorage (stateAfter call w) = localStorage w
     \<and> hasUserDismissedPermanently (stateAfter call w) = hasUserDismissedPermanently w
     \<and> (\<forall>k. k \<noteq> NEWSLETTER_SESSION_KEY \<longrightarrow>
           getItem (sessionStorage (stateAfter call w)) k = getItem (sessionStorage w) k))
   \<and> (\<forall>call \<in> {dismissNewsletter, clearDismissal}.
       sessionStorage (stateAfter call w) = sessionStorage w
     \<and> hasSubscribedThisSession (stateAfter call w) = hasSubscribedThisSession w
     \<and> (\<forall>k. k \<noteq> NEWSLETTER_NEVER_SHOW_KEY \<longrightarrow>
           getItem (localStorage (stateAfter call w)) k = getItem (localStorage w) k))
   \<and> NEWSLETTER_SESSION_KEY \<noteq> NEWSLETTER_NEVER_SHOW_KEY"
proof -
  have session: "localStorage (stateAfter call w) = localStorage w
     \<and> hasUserDismissedPermanently (stateAfter call w) = hasUserDismissedPermanently w
     \<and> (\<forall>k. k \<noteq> NEWSLETTER_SESSION_KEY \<longrightarrow>
           getItem (sessionStorage (stateAfter call w)) k = getItem (sessionStorage w) k)"
    if "call = markSubscribedThisSession \<or> call = clearSessionSubscription" for call
    using that
    by (auto simp: stateAfter_def markSubscribedThisSession_def clearSessionSubscription_def
          hasUserDismissedPermanently_def setItem_other removeItem_other split: sum.splits)
  have permanent: "sessionStorage (stateAfter call w) = sessionStorage w
     \<and> hasSubscribedThisSession (stateAfter call w) = hasSubscribedThisSession w
     \<and> (\<forall>k. k \<noteq> NEWSLETTER_NEVER_SHOW_KEY \<longrightarrow>
           getItem (localStorage (stateAfter call w)) k = getItem (localStorage w) k)"
    if "call = dismissNewsletter \<or> call = clearDismissal" for call
    using that
    by (auto simp: stateAfter_def dismissNewsletter_def clearDismissal_def
          hasSubscribedThisSession_def setItem_other removeItem_other split: sum.splits)
  have "NEWSLETTER_SESSION_KEY \<noteq> NEWSLETTER_NEVER_SHOW_KEY"
    by (simp add: NEWSLETTER_SESSION_KEY_def NEWSLETTER_NEVER_SHOW_KEY_def)
  with session permanent show ?thesis by blast
qed

text \<open>
  On a page where both flags are set, clearing one leaves the other set; on a page where
  neither is, setting one leaves the other unset.
\<close>

theorem flags_independent_witness:
  "hasUserDismissedPermanently (stateAfter markSubscribedThisSession examplePage) = Inr False
   \<and> hasSubscribedThisSession (stateAfter markSubscribedThisSession examplePage) = Inr True
   \<and> hasSubscribedThisSession (stateAfter dismissNewsletter examplePage) = Inr False
   \<and> hasUserDismissedPermanently (stateAfter dismissNewsletter examplePage) = Inr True
   \<and> NEWSLETTER_NEVER_SHOW_KEY \<noteq> NEWSLETTER_SESSION_KEY
   \<and> getItem (sessionStorage (stateAfter markSubscribedThisSession examplePage)) NEWSLETTER_NEVER_SHOW_KEY
       = Inr None
   \<and> hasSubscribedThisSession (stateAfter clearDismissal (stateAfter markSubscribedThisSession dismissedPage))
       = Inr True
   \<and> hasUserDismissedPermanently (stateAfter clearSessionSubscription (stateAfter markSubscribedThisSession dismissedPage))
       = Inr True"
proof -
  have before: "hasUserDismissedPermanently examplePage = Inr False"
    "hasSubscribedThisSession examplePage = Inr False"
    "getItem (sessionStorage examplePage) NEWSLETTER_NEVER_SHOW_KEY = Inr None"
    by (simp_all add: hasUserDismissedPermanently_def hasSubscribedThisSession_def examplePage_def)
  have set: "hasSubscribedThisSession (stateAfter markSubscribedThisSession examplePage) = Inr True"
    "hasUserDismissedPermanently (stateAfter dismissNewsletter examplePage) = Inr True"
    by (simp_all add: stateAfter_def markSubscribedThisSession_def dismissNewsletter_def
        hasSubscribedThisSession_def hasUserDismissedPermanently_def examplePage_def
        unlimited_def)
  have both: "hasSubscribedThisSession (stateAfter markSubscribedThisSession dismissedPage) = Inr True"
    "hasUserDismissedPermanently (stateAfter markSubscribedThisSession dismissedPage) = Inr True"
    by (simp_all add: stateAfter_def markSubscribedThisSession_def hasSubscribedThisSession_def
        hasUserDismissedPermanently_def dismissedPage_def examplePage_def unlimited_def)
  note fresh = flags_independent [of examplePage]
  note both_set = flags_independent [of "stateAfter markSubscribedThisSession dismissedPage"]
  from fresh have "NEWSLETTER_SESSION_KEY \<noteq> NEWSLETTER_NEVER_SHOW_KEY" by blast
  then have keys: "NEWSLETTER_NEVER_SHOW_KEY \<noteq> NEWSLETTER_SESSION_KEY" by (rule not_sym)
  from fresh have
    "hasUserDismissedPermanently (stateAfter markSubscribedThisSession examplePage)
       = hasUserDismissedPermanently examplePage"
    "hasSubscribedThisSession (stateAfter dismissNewsletter examplePage)
       = hasSubscribedThisSession examplePage"
    by blast+
  moreover from fresh keys have
    "getItem (sessionStorage (stateAfter markSubscribedThisSession examplePage)) NEWSLETTER_NEVER_SHOW_KEY
       = getItem (sessionStorage examplePage) NEWSLETTER_NEVER_SHOW_KEY"
    by blast
  moreover from both_set have
    "hasSubscribedThisSession (stateAfter clearDismissal (stateAfter markSubscribedThisSession dismissedPage))
       = hasSubscribedThisSession (stateAfter markSubscribedThisSession dismissedPage)"
    "hasUserDismissedPermanently (stateAfter clearSessionSubscription (stateAfter markSubscribedThisSession dismissedPage))
       = hasUserDismissedPermanently (stateAfter markSubscribedThisSession dismissedPage)"
    by blast+
  ultimately show ?thesis using before set both keys by simp
qed

section \<open>Storage that the host has disabled\<close>

text \<open>
  Claim C6. The persistence functions have no handler of their own. Where the host has
  disabled a storage area, so that every access to it raises, each function that touches
  the area raises that fault to its caller, the reads included, instead of reading false
  or doing nothing; the state is left as it was. \<open>subscribeToGhost\<close> does not raise: its
  write is inside the \<open>try\<close> block.
\<close>

theorem storage_unavailable_raises:
  "(sessionStorage w = Unavailable \<longrightarrow>
        hasSubscribedThisSession w = Inl SecurityError
      \<and> shouldShowForm w = Inl SecurityError
      \<and> initNewsletterForm w = Inl SecurityError
      \<and> markSubscribedThisSession w = Inl SecurityError
      \<and> clearSessionSubscription w = Inl SecurityError
      \<and> stateAfter markSubscribedThisSession w = w
      \<and> stateAfter clearSessionSubscription w = w)
   \<and> (localStorage w = Unavailable \<longrightarrow>
        hasUserDismissedPermanently w = Inl SecurityError
      \<and> dismissNewsletter w = Inl SecurityError
      \<and> clearDismissal w = Inl SecurityError
      \<and> stateAfter dismissNewsletter w = w
      \<and> stateAfter clearDismissal w = w)
   \<and> (sessionStorage w = Unavailable \<or> localStorage w = Unavailable \<longrightarrow>
        (\<exists>r. fst (subscribeToGhost_promise net email base opts w) = Inr r))"
proof (intro conjI impI)
  assume blocked: "sessionStorage w = Unavailable"
  then show "hasSubscribedThisSession w = Inl SecurityError"
    and "shouldShowForm w = Inl SecurityError"
    and "initNewsletterForm w = Inl SecurityError"
    and "markSubscribedThisSession w = Inl SecurityError"
    and "clearSessionSubscription w = Inl SecurityError"
    and "stateAfter markSubscribedThisSession w = w"
    and "stateAfter clearSessionSubscription w = w"
    by (simp_all add: hasSubscribedThisSession_def shouldShowForm_def initNewsletterForm_def
        markSubscribedThisSession_def clearSessionSubscription_def stateAfter_def)
next
  assume blocked: "localStorage w = Unavailable"
  then show "hasUserDismissedPermanently w = Inl SecurityError"
    and "dismissNewsletter w = Inl SecurityError"
    and "clearDismissal w = Inl SecurityError"
    and "stateAfter dismissNewsletter w = w"
    and "stateAfter clearDismissal w = w"
    by (simp_all add: hasUserDismissedPermanently_def dismissNewsletter_def clearDismissal_def
        stateAfter_def)
next
  show "\<exists>r. fst (subscribeToGhost_promise net email base opts w) = Inr r"
    by (simp add: subscribeToGhost_promise_resolves)
qed

text \<open>The example page with its storage disabled, the server accepting the subscription.\<close>

theorem storage_unavailable_raises_witness:
  "sessionStorage blockedPage = Unavailable
   \<and> localStorage blockedPage = Unavailable
   \<and> hasSubscribedThisSession blockedPage = Inl SecurityError
   \<and> hasUserDismissedPermanently blockedPage = Inl SecurityError
   \<and> shouldShowForm blockedPage = Inl SecurityError
   \<and> stateAfter markSubscribedThisSession blockedPage = blockedPage
   \<and> stateAfter dismissNewsletter blockedPage = blockedPage
   \<and> fst (subscribeToGhost_promise (ghost (PostResponse 201 None)) ''user@example.com'' blog
        noOptions blockedPage) = Inr (fst blockedRun)"
proof -
  have blocked: "sessionStorage blockedPage = Unavailable" "localStorage blockedPage = Unavailable"
    by (simp_all add: blockedPage_def)
  note off = storage_unavailable_raises [of blockedPage "ghost (PostResponse 201 None)"
      "''user@example.com''" blog noOptions]
  from off blocked have
    "hasSubscribedThisSession blockedPage = Inl SecurityError"
    "hasUserDismissedPermanently blockedPage = Inl SecurityError"
    "shouldShowForm blockedPage = Inl SecurityError"
    "stateAfter markSubscribedThisSession blockedPage = blockedPage"
    "stateAfter dismissNewsletter blockedPage = blockedPage"
    by blast+
  moreover from off blocked obtain r where
    "fst (subscribeToGhost_promise (ghost (PostResponse 201 None)) ''user@example.com'' blog
        noOptions blockedPage) = Inr r"
    by blast
  then have "fst (subscribeToGhost_promise (ghost (PostResponse 201 None)) ''user@example.com'' blog
        noOptions blockedPage) = Inr (fst blockedRun)"
    by (simp add: subscribeToGhost_promise_resolves blockedRun_def)
  ultimately show ?thesis using blocked by simp
qed

text \<open>
  On that page the reads raise instead of returning false, and so do the page-load check
  and the dismissal.
\<close>

theorem storage_unavailable_counterexample:
  "hasSubscribedThisSession blockedPage = Inl SecurityError
   \<and> hasUserDismissedPermanently blockedPage = Inl SecurityError
   \<and> initNewsletterForm blockedPage = Inl SecurityError
   \<and> dismissNewsletter blockedPage = Inl SecurityError"
  by (simp add: hasSubscribedThisSession_def hasUserDismissedPermanently_def
      initNewsletterForm_def shouldShowForm_def dismissNewsletter_def blockedPage_def)

end
